theory Spec2Isabelle
  imports Main "HOL-Library.FSet" "HOL-Library.Multiset"
begin

section \<open>Kids learning playground: the six mini-games of \<^verbatim>\<open>src/app/page.tsx\<close>\<close>

text \<open>
  The program is one React component, \<^verbatim>\<open>ChildrenGames\<close>. Its state hooks become
  the fields of the record \<open>App\<close>, every event handler becomes a function from the
  state of the render it was created in to the state of the next render, and every
  \<^verbatim>\<open>setTimeout\<close> callback becomes a value of the datatype \<open>Callback\<close> that stores
  what the closure captured; it is run later against the state of that later moment.

  Numbers: \<^verbatim>\<open>level\<close>, \<^verbatim>\<open>maxLevel\<close>, \<^verbatim>\<open>score\<close> and \<^verbatim>\<open>attempts\<close> start at the literals
  1, 1, 0, 0 and are only ever changed by adding a natural number or by assigning such
  a sum, so they are \<open>nat\<close>. The free-standing lookup functions at the end of the
  source take any number; they are modelled over \<open>int\<close>.

  Strings: the emoji literals are written by code point (\<open>''U+1F535''\<close> is the blue
  circle); the program only ever compares them for equality.
\<close>

subsection \<open>JavaScript arrays\<close>

text \<open>\<^verbatim>\<open>xs[i]\<close> is \<^verbatim>\<open>undefined\<close> out of range: \<open>None\<close>.\<close>

definition js_index :: "'a list \<Rightarrow> int \<Rightarrow> 'a option" where
  "js_index xs i = (if 0 \<le> i \<and> i < int (length xs) then Some (xs ! nat i) else None)"

definition nth_opt :: "'a list \<Rightarrow> nat \<Rightarrow> 'a option" where
  "nth_opt xs i = (if i < length xs then Some (xs ! i) else None)"

text \<open>\<^verbatim>\<open>xs[level - 1]\<close> for a natural \<open>level\<close>: index \<open>-1\<close> is \<^verbatim>\<open>undefined\<close>.\<close>

definition at_level :: "'a list \<Rightarrow> nat \<Rightarrow> 'a option" where
  "at_level xs level = (if level = 0 then None else nth_opt xs (level - 1))"

text \<open>\<^verbatim>\<open>xs.slice(0, n)\<close>: a negative end counts from the end of the array.\<close>

definition slice0 :: "'a list \<Rightarrow> int \<Rightarrow> 'a list" where
  "slice0 xs n = (if n < 0 then take (nat (int (length xs) + n)) xs else take (nat n) xs)"

subsection \<open>Types and static content tables\<close>

datatype Screen = Menu | Game

datatype GameType = Memory | FindPair | Pattern | Different | Sequence | Simon

record GameState =
  type :: "GameType option"
  level :: nat
  maxLevel :: nat
  score :: nat
  attempts :: nat

text \<open>\<^verbatim>\<open>MAX_LEVELS\<close> (lines 76-83).\<close>

fun MAX_LEVELS :: "GameType \<Rightarrow> nat" where
  "MAX_LEVELS Memory = 5"
| "MAX_LEVELS FindPair = 3"
| "MAX_LEVELS Pattern = 5"
| "MAX_LEVELS Different = 5"
| "MAX_LEVELS Sequence = 4"
| "MAX_LEVELS Simon = 10"

record Pair =
  image' :: string
  word :: string

record PatternChallenge =
  sequence :: "string list"
  answer :: string
  options :: "string list"

record DifferentChallenge =
  items_d :: "string list"
  different :: nat

record SequenceChallenge =
  items :: "string list"
  correctOrder :: "string list"

text \<open>
  Each table is declared three times in the source (in the variant's init, in its
  handler and in its lookup function), every time with the same rows.
\<close>

definition allPairs :: "Pair list" where
  "allPairs =
   [\<lparr>image' = ''U+1F436'', word = ''Cachorro''\<rparr>,
    \<lparr>image' = ''U+1F431'', word = ''Gato''\<rparr>,
    \<lparr>image' = ''U+1F430'', word = ''Coelho''\<rparr>,
    \<lparr>image' = ''U+1F98A'', word = ''Raposa''\<rparr>,
    \<lparr>image' = ''U+1F981'', word = ''Le[U+00E3]o''\<rparr>,
    \<lparr>image' = ''U+1F42F'', word = ''Tigre''\<rparr>,
    \<lparr>image' = ''U+1F43C'', word = ''Panda''\<rparr>,
    \<lparr>image' = ''U+1F428'', word = ''Coala''\<rparr>,
    \<lparr>image' = ''U+1F438'', word = ''Sapo''\<rparr>,
    \<lparr>image' = ''U+1F984'', word = ''Unic[U+00F3]rnio''\<rparr>]"

definition allPatterns :: "PatternChallenge list" where
  "allPatterns =
   [\<lparr>sequence = [''U+1F534'', ''U+1F535'', ''U+1F534'', ''U+1F535'', ''U+1F534'', ''?''], answer = ''U+1F535'', options = [''U+1F535'', ''U+1F7E1'', ''U+1F7E2'']\<rparr>,
    \<lparr>sequence = [''U+2B50'', ''U+1F319'', ''U+2B50'', ''U+1F319'', ''U+2B50'', ''?''], answer = ''U+1F319'', options = [''U+1F319'', ''U+2600 U+FE0F'', ''U+1F4AB'']\<rparr>,
    \<lparr>sequence = [''U+1F34E'', ''U+1F34E'', ''U+1F34A'', ''U+1F34E'', ''U+1F34E'', ''?''], answer = ''U+1F34A'', options = [''U+1F34A'', ''U+1F34B'', ''U+1F347'']\<rparr>,
    \<lparr>sequence = [''U+1F53A'', ''U+1F53B'', ''U+1F53A'', ''U+1F53B'', ''U+1F53A'', ''?''], answer = ''U+1F53B'', options = [''U+1F53B'', ''U+1F536'', ''U+2B50'']\<rparr>,
    \<lparr>sequence = [''1'', ''2'', ''3'', ''4'', ''5'', ''?''], answer = ''6'', options = [''6'', ''7'', ''8'']\<rparr>,
    \<lparr>sequence = [''U+1F7E2'', ''U+1F7E2'', ''U+1F535'', ''U+1F535'', ''U+1F7E2'', ''U+1F7E2'', ''?''], answer = ''U+1F535'', options = [''U+1F535'', ''U+1F7E1'', ''U+1F7E2'']\<rparr>,
    \<lparr>sequence = [''A'', ''B'', ''C'', ''D'', ''E'', ''?''], answer = ''F'', options = [''F'', ''G'', ''H'']\<rparr>,
    \<lparr>sequence = [''U+1F338'', ''U+1F338'', ''U+1F33A'', ''U+1F338'', ''U+1F338'', ''?''], answer = ''U+1F33A'', options = [''U+1F33A'', ''U+1F339'', ''U+1F337'']\<rparr>,
    \<lparr>sequence = [''2'', ''4'', ''6'', ''8'', ''10'', ''?''], answer = ''12'', options = [''12'', ''14'', ''16'']\<rparr>,
    \<lparr>sequence = [''U+2B06 U+FE0F'', ''U+2B07 U+FE0F'', ''U+2B06 U+FE0F'', ''U+2B07 U+FE0F'', ''U+2B06 U+FE0F'', ''?''], answer = ''U+2B07 U+FE0F'', options = [''U+2B07 U+FE0F'', ''U+27A1 U+FE0F'', ''U+2B05 U+FE0F'']\<rparr>]"

definition allLevels :: "DifferentChallenge list" where
  "allLevels =
   [\<lparr>items_d = [''U+1F436'', ''U+1F436'', ''U+1F436'', ''U+1F431'', ''U+1F436''], different = 3\<rparr>,
    \<lparr>items_d = [''U+1F534'', ''U+1F534'', ''U+1F535'', ''U+1F534'', ''U+1F534''], different = 2\<rparr>,
    \<lparr>items_d = [''U+2B50'', ''U+2B50'', ''U+2B50'', ''U+2B50'', ''U+1F4AB''], different = 4\<rparr>,
    \<lparr>items_d = [''U+1F34E'', ''U+1F34E'', ''U+1F34A'', ''U+1F34E'', ''U+1F34E''], different = 2\<rparr>,
    \<lparr>items_d = [''U+1F53A'', ''U+1F53A'', ''U+1F53A'', ''U+1F536'', ''U+1F53A''], different = 3\<rparr>,
    \<lparr>items_d = [''U+1F436'', ''U+1F436'', ''U+1F436'', ''U+1F436'', ''U+1F431'', ''U+1F436''], different = 4\<rparr>,
    \<lparr>items_d = [''U+1F534'', ''U+1F534'', ''U+1F535'', ''U+1F534'', ''U+1F534'', ''U+1F534''], different = 2\<rparr>,
    \<lparr>items_d = [''U+2B50'', ''U+2B50'', ''U+2B50'', ''U+2B50'', ''U+2B50'', ''U+1F4AB''], different = 5\<rparr>,
    \<lparr>items_d = [''U+1F34E'', ''U+1F34E'', ''U+1F34A'', ''U+1F34E'', ''U+1F34E'', ''U+1F34E''], different = 2\<rparr>,
    \<lparr>items_d = [''U+1F53A'', ''U+1F53A'', ''U+1F53A'', ''U+1F53A'', ''U+1F536'', ''U+1F53A''], different = 4\<rparr>]"

definition allSequences :: "SequenceChallenge list" where
  "allSequences =
   [\<lparr>items = [''U+1F331'', ''U+1F33F'', ''U+1FAB4'', ''U+1F333''], correctOrder = [''U+1F331'', ''U+1F33F'', ''U+1FAB4'', ''U+1F333'']\<rparr>,
    \<lparr>items = [''U+1F95A'', ''U+1F423'', ''U+1F425'', ''U+1F414''], correctOrder = [''U+1F95A'', ''U+1F423'', ''U+1F425'', ''U+1F414'']\<rparr>,
    \<lparr>items = [''1'', ''2'', ''3'', ''4''], correctOrder = [''1'', ''2'', ''3'', ''4'']\<rparr>,
    \<lparr>items = [''U+2601 U+FE0F'', ''U+1F327 U+FE0F'', ''U+1F308'', ''U+2600 U+FE0F''], correctOrder = [''U+2601 U+FE0F'', ''U+1F327 U+FE0F'', ''U+1F308'', ''U+2600 U+FE0F'']\<rparr>]"

text \<open>\<^verbatim>\<open>gameEmojis.memory\<close> (line 70).\<close>

definition gameEmojis_memory :: "string list" where
  "gameEmojis_memory =
   [''U+1F436'', ''U+1F431'', ''U+1F430'', ''U+1F98A'', ''U+1F43C'', ''U+1F981'', ''U+1F42F'', ''U+1F428'',
    ''U+1F438'', ''U+1F435'', ''U+1F414'', ''U+1F427'', ''U+1F984'', ''U+1F42C'', ''U+1F98B'', ''U+1F308'']"

subsection \<open>The lookup functions (lines 1298-1385)\<close>

text \<open>
  A lookup returns what it wrote with \<^verbatim>\<open>console.error\<close> (the message and the numbers
  logged with it) and its value; \<open>None\<close> is \<^verbatim>\<open>undefined\<close>. The test \<^verbatim>\<open>!level\<close> is true
  of 0 (and of NaN, which is no integer). The parameter \<^verbatim>\<open>level\<close> is written \<open>lvl\<close>,
  since \<open>level\<close> is the field of \<open>GameState\<close>.
\<close>

type_synonym console = "(string \<times> int list) list"

definition getFindPairsForLevel :: "int \<Rightarrow> console \<times> Pair list" where
  "getFindPairsForLevel lvl =
    (if lvl = 0 \<or> lvl < 1 \<or> lvl > 3
     then ([(''Invalid level for getFindPairsForLevel:'', [lvl])], slice0 allPairs 3)
     else (case js_index [3, 5, 7] (lvl - 1) of
             None \<Rightarrow> ([], allPairs)
           | Some pairsCount \<Rightarrow> ([], slice0 allPairs pairsCount)))"

definition getPatternsForLevel :: "int \<Rightarrow> int \<Rightarrow> console \<times> PatternChallenge option" where
  "getPatternsForLevel lvl index =
    (if lvl = 0 \<or> lvl < 1 \<or> lvl > 5
     then ([(''Invalid level for getPatternsForLevel:'', [lvl])], js_index allPatterns 0)
     else (let patternsForLevel = slice0 allPatterns lvl in
           if index < 0 \<or> index \<ge> int (length patternsForLevel)
           then ([(''Invalid index for getPatternsForLevel:'', [lvl, index])],
                 js_index patternsForLevel 0)
           else ([], js_index patternsForLevel index)))"

definition getDifferentForLevel :: "int \<Rightarrow> int \<Rightarrow> console \<times> DifferentChallenge option" where
  "getDifferentForLevel lvl index =
    (if lvl = 0 \<or> lvl < 1 \<or> lvl > 5
     then ([(''Invalid level for getDifferentForLevel:'', [lvl])], js_index allLevels 0)
     else (let levelsForGame = slice0 allLevels lvl in
           if index < 0 \<or> index \<ge> int (length levelsForGame)
           then ([(''Invalid index for getDifferentForLevel:'', [lvl, index])],
                 js_index levelsForGame 0)
           else ([], js_index levelsForGame index)))"

text \<open>The parameter \<^verbatim>\<open>index\<close> of \<^verbatim>\<open>getSequenceForLevel\<close> is never read.\<close>

definition getSequenceForLevel :: "int \<Rightarrow> int \<Rightarrow> console \<times> SequenceChallenge option" where
  "getSequenceForLevel lvl index =
    (if lvl = 0 \<or> lvl < 1 \<or> lvl > 4
     then ([(''Invalid level for getSequenceForLevel:'', [lvl])], js_index allSequences 0)
     else (case js_index allSequences (lvl - 1) of
             None \<Rightarrow> ([(''No sequence found for level:'', [lvl])], js_index allSequences 0)
           | Some sq \<Rightarrow> ([], Some sq)))"

subsection \<open>Component state, timers, sounds\<close>

datatype Sound = Correct | Wrong | Click | Win | SimonGreen | SimonRed | SimonYellow | SimonBlue

text \<open>\<^verbatim>\<open>SIMON_COLORS[buttonId].sound\<close> (lines 86-91).\<close>

definition SIMON_COLORS :: "Sound list" where
  "SIMON_COLORS = [SimonGreen, SimonRed, SimonYellow, SimonBlue]"

record MemoryCard =
  id' :: nat
  emoji :: string
  flipped :: bool
  matched :: bool

record Selection =
  image_sel :: "string option"
  word_sel :: "string option"

datatype PairSide = Image' | Word'

text \<open>
  What each \<^verbatim>\<open>setTimeout\<close> callback of the component captured when it was created.
  A \<open>GameState\<close> argument is the \<^verbatim>\<open>gameState\<close> of the render whose
  \<^verbatim>\<open>autoAdvanceLevel\<close> the callback calls.
\<close>

datatype Callback =
    MemoryMatch "MemoryCard list" nat nat GameState
  | MemoryNoMatch "MemoryCard list" nat nat
  | PatternNext nat nat GameState
  | DifferentNext nat nat GameState
  | AdvanceLevel GameState
  | SimonStart "nat list"
  | SimonShowNext "nat list" nat
  | SimonHide "nat list" nat
  | SimonReplay "nat list"
  | SimonAdvance GameState

record Timer =
  tid :: nat
  delay :: nat
  callback :: Callback

record App =
  currentScreen :: Screen
  gameState :: GameState
  memoryCards :: "MemoryCard list"
  selectedCards :: "nat list"
  selectedPair :: Selection
  pairedItems :: "string fset"
  currentFindPairLevel :: nat
  currentPatternIndex :: nat
  patternFeedback :: "string option"
  currentDifferentIndex :: nat
  differentFeedback :: "string option"
  currentSequenceIndex :: nat
  sequenceItems :: "string list"
  simonSequence :: "nat list"
  playerSequence :: "nat list"
  isShowingSequence :: bool
  activeSimonButton :: "nat option"
  showSequenceTimeoutRef :: "nat option"
  showLevelCompleteModal :: bool
  showWinModal :: bool
  soundEnabled :: bool
  sounds :: "Sound list"
  timers :: "Timer list"
  nextTimerId :: nat

text \<open>
  The last four fields are the environment: the module variable \<^verbatim>\<open>soundEnabled\<close>, the
  sounds \<^verbatim>\<open>playSound\<close> has started, the callbacks \<^verbatim>\<open>setTimeout\<close> holds (delays in
  milliseconds) and the next timer handle. Handles are positive, so a stored handle is
  truthy.
\<close>

definition initialApp :: App where
  "initialApp =
    \<lparr>currentScreen = Menu,
     gameState = \<lparr>type = None, level = 1, maxLevel = 1, score = 0, attempts = 0\<rparr>,
     memoryCards = [], selectedCards = [],
     selectedPair = \<lparr>image_sel = None, word_sel = None\<rparr>,
     pairedItems = {||}, currentFindPairLevel = 1,
     currentPatternIndex = 0, patternFeedback = None,
     currentDifferentIndex = 0, differentFeedback = None,
     currentSequenceIndex = 0, sequenceItems = [],
     simonSequence = [], playerSequence = [], isShowingSequence = False,
     activeSimonButton = None, showSequenceTimeoutRef = None,
     showLevelCompleteModal = False, showWinModal = False,
     soundEnabled = True, sounds = [], timers = [], nextTimerId = 1\<rparr>"

text \<open>
  A handler either returns or throws a \<^verbatim>\<open>TypeError\<close> (a property read of
  \<^verbatim>\<open>undefined\<close>); the state updates it queued before the throw are still applied.
\<close>

datatype 'a Outcome = Returned 'a | Thrown 'a

fun state_of :: "'a Outcome \<Rightarrow> 'a" where
  "state_of (Returned s) = s"
| "state_of (Thrown s) = s"

text \<open>
  The choices of \<^verbatim>\<open>Math.random\<close>: the order \<^verbatim>\<open>.sort(() => Math.random() - 0.5)\<close> leaves
  an array in, and the draws of \<^verbatim>\<open>Math.floor(Math.random() * 4)\<close>.
\<close>

record Chance =
  shuffle_cards :: "MemoryCard list \<Rightarrow> MemoryCard list"
  shuffle_items :: "string list \<Rightarrow> string list"
  draw :: "nat \<Rightarrow> nat"

definition playSound :: "Sound \<Rightarrow> App \<Rightarrow> App" where
  "playSound sound s = (if \<not> soundEnabled s then s else s\<lparr>sounds := sounds s @ [sound]\<rparr>)"

definition setTimeout :: "Callback \<Rightarrow> nat \<Rightarrow> App \<Rightarrow> App" where
  "setTimeout cb ms s =
     s\<lparr>timers := timers s @ [\<lparr>tid = nextTimerId s, delay = ms, callback = cb\<rparr>],
       nextTimerId := Suc (nextTimerId s)\<rparr>"

definition clearTimeout :: "nat \<Rightarrow> App \<Rightarrow> App" where
  "clearTimeout i s = s\<lparr>timers := filter (\<lambda>t. tid t \<noteq> i) (timers s)\<rparr>"

text \<open>\<^verbatim>\<open>setGameState(prev => f(prev))\<close>.\<close>

definition setGameState :: "(GameState \<Rightarrow> GameState) \<Rightarrow> App \<Rightarrow> App" where
  "setGameState f s = s\<lparr>gameState := f (gameState s)\<rparr>"

subsection \<open>Level progression (lines 130-167)\<close>

definition autoAdvanceLevel :: "GameState \<Rightarrow> App \<Rightarrow> App" where
  "autoAdvanceLevel g s =
    (if level g < maxLevel g
     then setTimeout (AdvanceLevel g) 1500 (s\<lparr>showLevelCompleteModal := True\<rparr>)
     else playSound Win (s\<lparr>showWinModal := True\<rparr>))"

subsection \<open>The six variants' init functions\<close>

definition initMemoryGameAtLevel :: "nat \<Rightarrow> Chance \<Rightarrow> App \<Rightarrow> App" where
  "initMemoryGameAtLevel lvl ch s =
    (let gridSize = at_level [4, 6, 12, 16, 20 :: nat] lvl;
         emojis = (case gridSize of None \<Rightarrow> [] | Some n \<Rightarrow> take (n div 2) gameEmojis_memory);
         cards = shuffle_cards ch
                   (map (\<lambda>(e, index). \<lparr>id' = index, emoji = e, flipped = False, matched = False\<rparr>)
                        (zip (emojis @ emojis) [0 ..< length (emojis @ emojis)]))
     in setGameState (\<lambda>prev. prev\<lparr>level := lvl, maxLevel := MAX_LEVELS Memory\<rparr>)
          (s\<lparr>memoryCards := cards, selectedCards := []\<rparr>))"

definition initFindPairGameAtLevel :: "nat \<Rightarrow> App \<Rightarrow> App" where
  "initFindPairGameAtLevel lvl s =
     setGameState (\<lambda>prev. prev\<lparr>level := lvl, maxLevel := MAX_LEVELS FindPair\<rparr>)
       (s\<lparr>selectedPair := \<lparr>image_sel = None, word_sel = None\<rparr>,
          pairedItems := {||},
          currentFindPairLevel := lvl\<rparr>)"

definition initPatternGameAtLevel :: "nat \<Rightarrow> App \<Rightarrow> App" where
  "initPatternGameAtLevel lvl s =
     setGameState (\<lambda>prev. prev\<lparr>level := lvl, maxLevel := MAX_LEVELS Pattern\<rparr>)
       (s\<lparr>currentPatternIndex := 0, patternFeedback := None\<rparr>)"

definition initDifferentGameAtLevel :: "nat \<Rightarrow> App \<Rightarrow> App" where
  "initDifferentGameAtLevel lvl s =
     setGameState (\<lambda>prev. prev\<lparr>level := lvl, maxLevel := MAX_LEVELS Different\<rparr>)
       (s\<lparr>currentDifferentIndex := 0, differentFeedback := None\<rparr>)"

text \<open>\<^verbatim>\<open>allSequences[level - 1].items\<close> throws when there is no such row.\<close>

definition initSequenceGameAtLevel :: "nat \<Rightarrow> Chance \<Rightarrow> App \<Rightarrow> App Outcome" where
  "initSequenceGameAtLevel lvl ch s =
    (case at_level allSequences lvl of
       None \<Rightarrow> Thrown s
     | Some firstSequence \<Rightarrow>
         Returned
           (setGameState (\<lambda>prev. prev\<lparr>level := lvl, maxLevel := MAX_LEVELS Sequence\<rparr>)
              (s\<lparr>sequenceItems := shuffle_items ch (items firstSequence),
                 currentSequenceIndex := 0\<rparr>)))"

definition initSimonGameAtLevel :: "nat \<Rightarrow> Chance \<Rightarrow> App \<Rightarrow> App" where
  "initSimonGameAtLevel lvl ch s =
    (let newSequence = map (\<lambda>k. draw ch k mod 4) [0 ..< lvl]
     in setGameState (\<lambda>prev. prev\<lparr>level := lvl, maxLevel := MAX_LEVELS Simon\<rparr>)
          (setTimeout (SimonStart newSequence) 500
             (s\<lparr>simonSequence := newSequence, playerSequence := [],
                isShowingSequence := True, activeSimonButton := None\<rparr>)))"

text \<open>
  The \<^verbatim>\<open>switch\<close> over the game type, written twice in the source with the same cases
  (lines 141-160 and 558-577).
\<close>

fun initGameAtLevel :: "GameType \<Rightarrow> nat \<Rightarrow> Chance \<Rightarrow> App \<Rightarrow> App Outcome" where
  "initGameAtLevel Memory lvl ch s = Returned (initMemoryGameAtLevel lvl ch s)"
| "initGameAtLevel FindPair lvl ch s = Returned (initFindPairGameAtLevel lvl s)"
| "initGameAtLevel Pattern lvl ch s = Returned (initPatternGameAtLevel lvl s)"
| "initGameAtLevel Different lvl ch s = Returned (initDifferentGameAtLevel lvl s)"
| "initGameAtLevel Sequence lvl ch s = initSequenceGameAtLevel lvl ch s"
| "initGameAtLevel Simon lvl ch s = Returned (initSimonGameAtLevel lvl ch s)"

subsection \<open>Memory game (lines 190-235)\<close>

text \<open>
  The source copies the card array (\<^verbatim>\<open>[...memoryCards]\<close>) and then writes into the card
  objects, which the copy shares with the array it was made from. Every array the
  component keeps or captures is a copy of the same deck, and a captured array is not
  written to between its capture and the run of the callback that holds it (card
  clicks are ignored while two cards are selected, and a new deck has new objects), so
  the arrays are modelled as values.
\<close>

definition handleCardClick :: "nat \<Rightarrow> App \<Rightarrow> App Outcome" where
  "handleCardClick index s =
    (if length (selectedCards s) = 2 then Returned s
     else case nth_opt (memoryCards s) index of
       None \<Rightarrow> Thrown s
     | Some c \<Rightarrow>
        if matched c \<or> flipped c then Returned s
        else
          let s1 = playSound Click s;
              newCards = (memoryCards s)[index := c\<lparr>flipped := True\<rparr>];
              s2 = s1\<lparr>memoryCards := newCards\<rparr>;
              newSelected = selectedCards s @ [index];
              s3 = s2\<lparr>selectedCards := newSelected\<rparr>
          in if length newSelected = 2
             then
               let s4 = setGameState (\<lambda>prev. prev\<lparr>attempts := attempts prev + 1\<rparr>) s3;
                   first = newSelected ! 0;
                   second = newSelected ! 1
               in (case (nth_opt newCards first, nth_opt newCards second) of
                     (Some a, Some b) \<Rightarrow>
                       if emoji a = emoji b
                       then Returned (setTimeout (MemoryMatch newCards first second (gameState s)) 500 s4)
                       else Returned (setTimeout (MemoryNoMatch newCards first second) 1000 s4)
                   | _ \<Rightarrow> Thrown s4)
             else Returned s3)"

text \<open>The callback of line 208, run 500 ms after a matching second card.\<close>

definition fireMemoryMatch :: "MemoryCard list \<Rightarrow> nat \<Rightarrow> nat \<Rightarrow> GameState \<Rightarrow> App \<Rightarrow> App Outcome" where
  "fireMemoryMatch newCards first second g s =
    (case nth_opt newCards first of
       None \<Rightarrow> Thrown s
     | Some a \<Rightarrow>
        let u1 = newCards[first := a\<lparr>matched := True\<rparr>]
        in (case nth_opt u1 second of
              None \<Rightarrow> Thrown s
            | Some b \<Rightarrow>
               let updatedCards = u1[second := b\<lparr>matched := True\<rparr>];
                   s1 = s\<lparr>memoryCards := updatedCards, selectedCards := []\<rparr>;
                   s2 = setGameState (\<lambda>prev. prev\<lparr>score := score prev + 10\<rparr>) s1;
                   s3 = playSound Correct s2
               in if list_all matched updatedCards
                  then Returned (autoAdvanceLevel g (playSound Win s3))
                  else Returned s3))"

text \<open>The callback of line 225, run 1000 ms after a second card that does not match.\<close>

definition fireMemoryNoMatch :: "MemoryCard list \<Rightarrow> nat \<Rightarrow> nat \<Rightarrow> App \<Rightarrow> App Outcome" where
  "fireMemoryNoMatch newCards first second s =
    (case nth_opt newCards first of
       None \<Rightarrow> Thrown s
     | Some a \<Rightarrow>
        let u1 = newCards[first := a\<lparr>flipped := False\<rparr>]
        in (case nth_opt u1 second of
              None \<Rightarrow> Thrown s
            | Some b \<Rightarrow>
               let updatedCards = u1[second := b\<lparr>flipped := False\<rparr>]
               in Returned (playSound Wrong (s\<lparr>memoryCards := updatedCards, selectedCards := []\<rparr>))))"

subsection \<open>Pair matching (lines 263-304)\<close>

text \<open>A string or \<^verbatim>\<open>null\<close> is truthy when it is a non-empty string.\<close>

definition truthy :: "string option \<Rightarrow> bool" where
  "truthy v = (case v of None \<Rightarrow> False | Some x \<Rightarrow> x \<noteq> [])"

text \<open>
  \<^verbatim>\<open>pairsCount\<close> is \<^verbatim>\<open>undefined\<close> (\<open>None\<close>) when \<^verbatim>\<open>currentFindPairLevel\<close> is not 1, 2 or 3;
  then \<^verbatim>\<open>slice(0, undefined)\<close> is the whole table and \<^verbatim>\<open>pairsCount - 1\<close> is NaN, equal
  to nothing.
\<close>

definition pairsCount :: "App \<Rightarrow> nat option" where
  "pairsCount s = at_level [3, 5, 7] (currentFindPairLevel s)"

definition levelPairs :: "App \<Rightarrow> Pair list" where
  "levelPairs s = (case pairsCount s of None \<Rightarrow> allPairs | Some n \<Rightarrow> take n allPairs)"

definition handleFindPairSelect :: "PairSide \<Rightarrow> string \<Rightarrow> App \<Rightarrow> App" where
  "handleFindPairSelect side v s =
    (let s1 = playSound Click s;
         newSelected = (case side of
                          Image' \<Rightarrow> (selectedPair s)\<lparr>image_sel := Some v\<rparr>
                        | Word' \<Rightarrow> (selectedPair s)\<lparr>word_sel := Some v\<rparr>);
         s2 = s1\<lparr>selectedPair := newSelected\<rparr>
     in if truthy (image_sel newSelected) \<and> truthy (word_sel newSelected)
        then
          let correct = find (\<lambda>p. Some (image' p) = image_sel newSelected
                                  \<and> Some (word p) = word_sel newSelected) (levelPairs s);
              s3 = (case correct of
                      None \<Rightarrow> playSound Wrong s2
                    | Some c \<Rightarrow>
                        if image' c |\<notin>| pairedItems s
                        then
                          let s2a = s2\<lparr>pairedItems := finsert (image' c) (pairedItems s2)\<rparr>;
                              s2b = setGameState (\<lambda>prev. prev\<lparr>score := score prev + 10\<rparr>) s2a;
                              s2c = playSound Correct s2b
                          in if (case pairsCount s of
                                   None \<Rightarrow> False
                                 | Some n \<Rightarrow> int (fcard (pairedItems s)) = int n - 1)
                             then autoAdvanceLevel (gameState s) (playSound Win s2c)
                             else s2c
                        else playSound Wrong s2)
          in s3\<lparr>selectedPair := \<lparr>image_sel = None, word_sel = None\<rparr>\<rparr>
        else s2)"

subsection \<open>Pattern completion (lines 330-364) and odd one out (lines 387-421)\<close>

definition handlePatternAnswer :: "string \<Rightarrow> App \<Rightarrow> App Outcome" where
  "handlePatternAnswer ans s =
    (let patternsForLevel = take (level (gameState s)) allPatterns
     in case nth_opt patternsForLevel (currentPatternIndex s) of
          None \<Rightarrow> Thrown s
        | Some currentPattern \<Rightarrow>
           let correct = (ans = answer currentPattern);
               s1 = s\<lparr>patternFeedback := Some (if correct then ''correct'' else ''wrong'')\<rparr>;
               s2 = playSound (if correct then Correct else Wrong) s1;
               s3 = (if correct
                     then setGameState (\<lambda>prev. prev\<lparr>score := score prev + 10\<rparr>) s2
                     else s2)
           in Returned
                (setTimeout (PatternNext (currentPatternIndex s) (length patternsForLevel) (gameState s))
                   1000 s3))"

text \<open>
  The callback of line 355. \<open>idx\<close> and \<open>len\<close> are \<^verbatim>\<open>currentPatternIndex\<close> and
  \<^verbatim>\<open>patternsForLevel.length\<close> of the render that handled the answer.
\<close>

definition firePatternNext :: "nat \<Rightarrow> nat \<Rightarrow> GameState \<Rightarrow> App \<Rightarrow> App" where
  "firePatternNext idx len g s =
    (if int idx < int len - 1
     then s\<lparr>currentPatternIndex := currentPatternIndex s + 1, patternFeedback := None\<rparr>
     else autoAdvanceLevel g (playSound Win s))"

definition handleDifferentClick :: "nat \<Rightarrow> App \<Rightarrow> App Outcome" where
  "handleDifferentClick index s =
    (let levelsForGame = take (level (gameState s)) allLevels
     in case nth_opt levelsForGame (currentDifferentIndex s) of
          None \<Rightarrow> Thrown s
        | Some currentLevel \<Rightarrow>
           let correct = (index = different currentLevel);
               s1 = s\<lparr>differentFeedback := Some (if correct then ''correct'' else ''wrong'')\<rparr>;
               s2 = playSound (if correct then Correct else Wrong) s1;
               s3 = (if correct
                     then setGameState (\<lambda>prev. prev\<lparr>score := score prev + 10\<rparr>) s2
                     else s2)
           in Returned
                (setTimeout (DifferentNext (currentDifferentIndex s) (length levelsForGame) (gameState s))
                   1000 s3))"

definition fireDifferentNext :: "nat \<Rightarrow> nat \<Rightarrow> GameState \<Rightarrow> App \<Rightarrow> App" where
  "fireDifferentNext idx len g s =
    (if int idx < int len - 1
     then s\<lparr>currentDifferentIndex := currentDifferentIndex s + 1, differentFeedback := None\<rparr>
     else autoAdvanceLevel g (playSound Win s))"

subsection \<open>Sequence ordering (lines 439-471)\<close>

definition correctIndex :: "SequenceChallenge \<Rightarrow> App \<Rightarrow> nat" where
  "correctIndex currentSequence s =
     length (filter (\<lambda>i. i \<in> set (correctOrder currentSequence)) (sequenceItems s))"

definition handleSequenceClick :: "string \<Rightarrow> Chance \<Rightarrow> App \<Rightarrow> App Outcome" where
  "handleSequenceClick item ch s =
    (case nth_opt allSequences (currentSequenceIndex s) of
       None \<Rightarrow> Thrown s
     | Some currentSequence \<Rightarrow>
        let correctItem = nth_opt (correctOrder currentSequence) (correctIndex currentSequence s)
        in if Some item = correctItem
           then
             let s1 = playSound Correct s;
                 s2 = setGameState (\<lambda>prev. prev\<lparr>score := score prev + 10\<rparr>) s1;
                 newItems = filter (\<lambda>i. i \<noteq> item) (sequenceItems s);
                 s3 = s2\<lparr>sequenceItems := newItems\<rparr>
             in if length newItems = 0
                then
                  if int (currentSequenceIndex s) < int (length allSequences) - 1
                  then (case nth_opt allSequences (currentSequenceIndex s + 1) of
                          None \<Rightarrow> Thrown s3
                        | Some nextSequence \<Rightarrow>
                            Returned (s3\<lparr>sequenceItems := shuffle_items ch (items nextSequence),
                                         currentSequenceIndex := currentSequenceIndex s3 + 1\<rparr>))
                  else Returned (autoAdvanceLevel (gameState s) (playSound Win s3))
                else Returned s3
           else Returned (playSound Wrong s))"

subsection \<open>Colour repeat (lines 474-547)\<close>

text \<open>
  \<^verbatim>\<open>showSimonSequence\<close> starts a chain of callbacks that share the variable \<^verbatim>\<open>index\<close>;
  each callback of the chain carries its value.
\<close>

definition showSimonSequence :: "nat list \<Rightarrow> App \<Rightarrow> App" where
  "showSimonSequence sq s =
     (setTimeout (SimonShowNext sq 0) 500 s)\<lparr>showSequenceTimeoutRef := Some (nextTimerId s)\<rparr>"

definition fireSimonShowNext :: "nat list \<Rightarrow> nat \<Rightarrow> App \<Rightarrow> App Outcome" where
  "fireSimonShowNext sq index s =
    (if index < length sq
     then
       let buttonId = sq ! index;
           s1 = s\<lparr>activeSimonButton := Some buttonId\<rparr>
       in (case nth_opt SIMON_COLORS buttonId of
             None \<Rightarrow> Thrown s1
           | Some sound \<Rightarrow> Returned (setTimeout (SimonHide sq index) 500 (playSound sound s1)))
     else Returned s)"

definition fireSimonHide :: "nat list \<Rightarrow> nat \<Rightarrow> App \<Rightarrow> App" where
  "fireSimonHide sq index s =
    (let s1 = s\<lparr>activeSimonButton := None\<rparr>
     in if index + 1 < length sq
        then (setTimeout (SimonShowNext sq (index + 1)) 300 s1)
               \<lparr>showSequenceTimeoutRef := Some (nextTimerId s1)\<rparr>
        else s1\<lparr>isShowingSequence := False\<rparr>)"

definition handleSimonClick :: "nat \<Rightarrow> App \<Rightarrow> App Outcome" where
  "handleSimonClick buttonId s =
    (if isShowingSequence s then Returned s
     else case nth_opt SIMON_COLORS buttonId of
       None \<Rightarrow> Thrown s
     | Some sound \<Rightarrow>
        let s1 = playSound sound s;
            newPlayerSequence = playerSequence s @ [buttonId];
            s2 = s1\<lparr>playerSequence := newPlayerSequence\<rparr>;
            currentIndex = length newPlayerSequence - 1
        in if nth_opt newPlayerSequence currentIndex \<noteq> nth_opt (simonSequence s) currentIndex
           then Returned
                  (setTimeout (SimonReplay (simonSequence s)) 1000
                     ((playSound Wrong s2)\<lparr>isShowingSequence := True, playerSequence := []\<rparr>))
           else if length newPlayerSequence = length (simonSequence s)
           then Returned
                  (setTimeout (SimonAdvance (gameState s)) 1000
                     (setGameState (\<lambda>prev. prev\<lparr>score := score prev + 10 * level (gameState s)\<rparr>)
                        (playSound Correct s2)))
           else Returned s2)"

subsection \<open>Screen controller (lines 550-606)\<close>

text \<open>
  \<^verbatim>\<open>startGame\<close> up to and including its own \<^verbatim>\<open>setGameState\<close> (lines 551-556), before the
  \<^verbatim>\<open>switch\<close> that calls the variant's init.
\<close>

definition startGame_reset :: "GameType \<Rightarrow> App \<Rightarrow> App" where
  "startGame_reset gameType s =
    (let s1 = playSound Click s;
         s2 = s1\<lparr>showWinModal := False, showLevelCompleteModal := False\<rparr>
     in s2\<lparr>gameState := \<lparr>type = Some gameType, level = 1, maxLevel = 1, score = 0, attempts = 0\<rparr>\<rparr>)"

definition startGame :: "GameType \<Rightarrow> Chance \<Rightarrow> App \<Rightarrow> App Outcome" where
  "startGame gameType ch s =
    (case initGameAtLevel gameType 1 ch (startGame_reset gameType s) of
       Thrown s' \<Rightarrow> Thrown s'
     | Returned s' \<Rightarrow> Returned (s'\<lparr>currentScreen := Game\<rparr>))"

definition goToMenu :: "App \<Rightarrow> App" where
  "goToMenu s =
    (let s1 = playSound Click s;
         s2 = s1\<lparr>currentScreen := Menu,
                 gameState := \<lparr>type = None, level = 1, maxLevel = 1, score = 0, attempts = 0\<rparr>,
                 showWinModal := False, showLevelCompleteModal := False\<rparr>
     in case showSequenceTimeoutRef s2 of
          None \<Rightarrow> s2
        | Some i \<Rightarrow> (clearTimeout i s2)\<lparr>showSequenceTimeoutRef := None\<rparr>)"

definition restartGame :: "Chance \<Rightarrow> App \<Rightarrow> App Outcome" where
  "restartGame ch s =
    (let s1 = playSound Click s;
         s2 = s1\<lparr>showWinModal := False, showLevelCompleteModal := False\<rparr>
     in case type (gameState s) of
          None \<Rightarrow> Returned s2
        | Some gameType \<Rightarrow> startGame gameType ch s2)"

subsection \<open>Timers and events\<close>

text \<open>The callback of line 136, run 1500 ms after \<^verbatim>\<open>autoAdvanceLevel\<close> scheduled it.\<close>

definition fireAdvanceLevel :: "GameState \<Rightarrow> Chance \<Rightarrow> App \<Rightarrow> App Outcome" where
  "fireAdvanceLevel g ch s =
    (let s1 = s\<lparr>showLevelCompleteModal := False\<rparr>;
         s2 = setGameState (\<lambda>prev. prev\<lparr>level := level prev + 1\<rparr>) s1
     in case type g of
          None \<Rightarrow> Returned s2
        | Some gameType \<Rightarrow> initGameAtLevel gameType (level g + 1) ch s2)"

fun fire :: "Callback \<Rightarrow> Chance \<Rightarrow> App \<Rightarrow> App Outcome" where
  "fire (MemoryMatch newCards first second g) ch s = fireMemoryMatch newCards first second g s"
| "fire (MemoryNoMatch newCards first second) ch s = fireMemoryNoMatch newCards first second s"
| "fire (PatternNext idx len g) ch s = Returned (firePatternNext idx len g s)"
| "fire (DifferentNext idx len g) ch s = Returned (fireDifferentNext idx len g s)"
| "fire (AdvanceLevel g) ch s = fireAdvanceLevel g ch s"
| "fire (SimonStart sq) ch s = Returned (showSimonSequence sq s)"
| "fire (SimonShowNext sq index) ch s = fireSimonShowNext sq index s"
| "fire (SimonHide sq index) ch s = Returned (fireSimonHide sq index s)"
| "fire (SimonReplay sq) ch s = Returned (showSimonSequence sq s)"
| "fire (SimonAdvance g) ch s = Returned (autoAdvanceLevel g s)"

text \<open>
  What can happen to the component: the user's clicks, and the expiry of the pending
  timer with a given handle. One event is handled at a time and all the state updates
  it queues are applied before the next render (React batches them), so the result of
  an event is the next observable state.
\<close>

datatype Event =
    StartGame GameType
  | GoToMenu
  | RestartGame
  | CardClick nat
  | FindPairSelect PairSide string
  | PatternAnswer string
  | DifferentClick nat
  | SequenceClick string
  | SimonClick nat
  | DismissWin
  | ToggleSound
  | Expire nat

definition expire :: "nat \<Rightarrow> Chance \<Rightarrow> App \<Rightarrow> App Outcome" where
  "expire i ch s =
    (case find (\<lambda>t. tid t = i) (timers s) of
       None \<Rightarrow> Returned s
     | Some t \<Rightarrow> fire (callback t) ch (clearTimeout i s))"

fun handle :: "Event \<Rightarrow> Chance \<Rightarrow> App \<Rightarrow> App Outcome" where
  "handle (StartGame gameType) ch s = startGame gameType ch s"
| "handle GoToMenu ch s = Returned (goToMenu s)"
| "handle RestartGame ch s = restartGame ch s"
| "handle (CardClick index) ch s = handleCardClick index s"
| "handle (FindPairSelect side v) ch s = Returned (handleFindPairSelect side v s)"
| "handle (PatternAnswer ans) ch s = handlePatternAnswer ans s"
| "handle (DifferentClick index) ch s = handleDifferentClick index s"
| "handle (SequenceClick item) ch s = handleSequenceClick item ch s"
| "handle (SimonClick buttonId) ch s = handleSimonClick buttonId s"
| "handle DismissWin ch s = Returned (s\<lparr>showWinModal := False\<rparr>)"
| "handle ToggleSound ch s = Returned (playSound Click (s\<lparr>soundEnabled := \<not> soundEnabled s\<rparr>))"
| "handle (Expire i) ch s = expire i ch s"

definition step :: "Chance \<Rightarrow> App \<Rightarrow> Event \<Rightarrow> App" where
  "step ch s e = state_of (handle e ch s)"

text \<open>
  The state after a list of events, from left to right: \<open>steps\<close> when every event comes
  with the choices of \<^verbatim>\<open>Math.random\<close> made while it is handled, \<open>run\<close> when the choices
  are the same throughout.
\<close>

definition steps :: "App \<Rightarrow> (Chance \<times> Event) list \<Rightarrow> App" where
  "steps s ces = foldl (\<lambda>s' (ch, e). step ch s' e) s ces"

definition run :: "Chance \<Rightarrow> App \<Rightarrow> Event list \<Rightarrow> App" where
  "run ch s es = foldl (step ch) s es"

subsection \<open>Which events the rendered screen offers (lines 622-1292)\<close>

text \<open>
  The menu screen has one start button per game. The game screen has the buttons Menu,
  Restart and the sound toggle, and below them the controls of the game whose type is
  set: one button per memory card; per pair of the level an image button and a word
  button, disabled once the pair is matched; the options of the current pattern,
  disabled while a feedback is shown; the items of the current odd-one-out set,
  disabled likewise; the remaining items of the sequence; the four colour buttons,
  disabled while the sequence is shown. The win modal adds its own Menu and Restart
  buttons and is dismissed by a click on its backdrop. A timer can expire while it is
  pending.
\<close>

fun enabled :: "App \<Rightarrow> Event \<Rightarrow> bool" where
  "enabled s (StartGame t) = (currentScreen s = Menu)"
| "enabled s GoToMenu = (currentScreen s = Game)"
| "enabled s RestartGame = (currentScreen s = Game)"
| "enabled s ToggleSound = (currentScreen s = Game)"
| "enabled s DismissWin = (currentScreen s = Game \<and> showWinModal s)"
| "enabled s (CardClick index) =
     (currentScreen s = Game \<and> type (gameState s) = Some Memory \<and> index < length (memoryCards s))"
| "enabled s (FindPairSelect side v) =
     (currentScreen s = Game \<and> type (gameState s) = Some FindPair \<and>
      list_ex (\<lambda>item. (case side of Image' \<Rightarrow> image' item = v | Word' \<Rightarrow> word item = v)
                      \<and> image' item |\<notin>| pairedItems s)
        (snd (getFindPairsForLevel (int (currentFindPairLevel s)))))"
| "enabled s (PatternAnswer ans) =
     (currentScreen s = Game \<and> type (gameState s) = Some Pattern \<and> patternFeedback s = None \<and>
      (case snd (getPatternsForLevel (int (level (gameState s))) (int (currentPatternIndex s))) of
         None \<Rightarrow> False
       | Some p \<Rightarrow> ans \<in> set (options p)))"
| "enabled s (DifferentClick index) =
     (currentScreen s = Game \<and> type (gameState s) = Some Different \<and> differentFeedback s = None \<and>
      (case snd (getDifferentForLevel (int (level (gameState s))) (int (currentDifferentIndex s))) of
         None \<Rightarrow> False
       | Some d \<Rightarrow> index < length (items_d d)))"
| "enabled s (SequenceClick item) =
     (currentScreen s = Game \<and> type (gameState s) = Some Sequence \<and>
      snd (getSequenceForLevel (int (level (gameState s))) (int (currentSequenceIndex s))) \<noteq> None \<and>
      item \<in> set (sequenceItems s))"
| "enabled s (SimonClick buttonId) =
     (currentScreen s = Game \<and> type (gameState s) = Some Simon \<and> \<not> isShowingSequence s \<and>
      buttonId < length SIMON_COLORS)"
| "enabled s (Expire i) = list_ex (\<lambda>t. tid t = i) (timers s)"

text \<open>Every event of the list is offered by the screen it meets.\<close>

fun enabled_run :: "Chance \<Rightarrow> App \<Rightarrow> Event list \<Rightarrow> bool" where
  "enabled_run ch s [] = True"
| "enabled_run ch s (e # es) = (enabled s e \<and> enabled_run ch (step ch s e) es)"

subsection \<open>Vocabulary of the properties\<close>

text \<open>
  One possible outcome of \<^verbatim>\<open>Math.random\<close>: every comparison of the shuffling sort
  leaves the order as it is, and the \<open>k\<close>-th colour drawn is \<open>k mod 4\<close>.
\<close>

definition noShuffle :: Chance where
  "noShuffle = \<lparr>shuffle_cards = (\<lambda>cards. cards), shuffle_items = (\<lambda>xs. xs), draw = (\<lambda>k. k)\<rparr>"

text \<open>
  The events inside one session: every click and every timer expiry except the three
  that start or leave a session (\<^verbatim>\<open>startGame\<close>, \<^verbatim>\<open>restartGame\<close>, which calls it, and
  \<^verbatim>\<open>goToMenu\<close>).
\<close>

fun session_event :: "Event \<Rightarrow> bool" where
  "session_event (StartGame t) = False"
| "session_event GoToMenu = False"
| "session_event RestartGame = False"
| "session_event e = True"


text \<open>
  What a step inside a session leaves alone: the screen, the game type and the attempts
  counter stay, the score does not go down.
\<close>

definition frame :: "App \<Rightarrow> App \<Rightarrow> bool" where
  "frame s r = (currentScreen r = currentScreen s
              \<and> type (gameState r) = type (gameState s)
              \<and> score (gameState s) \<le> score (gameState r)
              \<and> attempts (gameState r) = attempts (gameState s))"

text \<open>
  Pair matching: the click \<open>(side, v)\<close> completes the selection of the pair \<open>p\<close> of the
  current level, and \<open>p\<close> is not matched yet. \<open>levelImages\<close> is the set \<^verbatim>\<open>pairedItems\<close>
  equals when every pair of the level is matched.
\<close>

definition completes :: "PairSide \<Rightarrow> string \<Rightarrow> App \<Rightarrow> Pair \<Rightarrow> bool" where
  "completes side v s p =
     (p \<in> set (levelPairs s) \<and> image' p |\<notin>| pairedItems s \<and>
      (case side of
         Image' \<Rightarrow> v = image' p \<and> word_sel (selectedPair s) = Some (word p)
       | Word' \<Rightarrow> v = word p \<and> image_sel (selectedPair s) = Some (image' p)))"

definition levelImages :: "App \<Rightarrow> string fset" where
  "levelImages s = fset_of_list (map image' (levelPairs s))"

text \<open>
  The matched pairs are pairs of the current level (\<open>pairs_inv\<close>); \<open>fp_same\<close> relates two
  states with the same matched pairs and the same pair-matching level.
\<close>

definition pairs_inv :: "App \<Rightarrow> bool" where
  "pairs_inv s = (pairedItems s |\<subseteq>| levelImages s)"

definition fp_same :: "App \<Rightarrow> App \<Rightarrow> bool" where
  "fp_same s r = (pairedItems r = pairedItems s \<and> currentFindPairLevel r = currentFindPairLevel s)"

text \<open>
  A play of the pattern game abandoned one second before its level-2 completion
  callback runs, followed by a pair-matching game played to the end of its first level.
\<close>

definition stale_timer_trace :: "Event list" where
  "stale_timer_trace =
    [StartGame Pattern,
     PatternAnswer ''U+1F535'', Expire 1, Expire 2,
     PatternAnswer ''U+1F535'', Expire 3,
     PatternAnswer ''U+1F319'',
     GoToMenu, StartGame FindPair,
     Expire 4, Expire 5,
     FindPairSelect Image' ''U+1F436'', FindPairSelect Word' ''Cachorro'',
     FindPairSelect Image' ''U+1F431'', FindPairSelect Word' ''Gato'',
     FindPairSelect Image' ''U+1F430'', FindPairSelect Word' ''Coelho'',
     Expire 6]"


text \<open>
  A session of game type \<open>t\<close> with no timer of another session pending: the session
  state has type \<open>t\<close>, the declared total of \<open>t\<close> and a level within it, and so has
  every \<^verbatim>\<open>gameState\<close> a pending callback captured; a pending level advance was scheduled
  below the top level. \<open>keeps\<close> relates a state to a later one with the same type and
  levels whose new timers are of that kind.
\<close>

definition session_state :: "GameType \<Rightarrow> GameState \<Rightarrow> bool" where
  "session_state t g =
     (type g = Some t \<and> maxLevel g = MAX_LEVELS t \<and> 1 \<le> level g \<and> level g \<le> maxLevel g)"

fun callback_ok :: "GameType \<Rightarrow> Callback \<Rightarrow> bool" where
  "callback_ok t (MemoryMatch newCards first second g) = session_state t g"
| "callback_ok t (PatternNext idx len g) = session_state t g"
| "callback_ok t (DifferentNext idx len g) = session_state t g"
| "callback_ok t (AdvanceLevel g) = (session_state t g \<and> level g < maxLevel g)"
| "callback_ok t (SimonAdvance g) = session_state t g"
| "callback_ok t cb = True"

definition session_inv :: "GameType \<Rightarrow> App \<Rightarrow> bool" where
  "session_inv t s =
     (session_state t (gameState s) \<and> list_all (\<lambda>tm. callback_ok t (callback tm)) (timers s))"

definition keeps :: "GameType \<Rightarrow> App \<Rightarrow> App \<Rightarrow> bool" where
  "keeps t s r =
     (type (gameState r) = type (gameState s) \<and> level (gameState r) = level (gameState s)
      \<and> maxLevel (gameState r) = maxLevel (gameState s)
      \<and> (\<forall>tm\<in>set (timers r). tm \<in> set (timers s) \<or> callback_ok t (callback tm)))"

text \<open>
  The same abandoned pattern game, up to the run of its level-advance callback in the
  pair-matching session that was started meanwhile.
\<close>

definition stale_advance_trace :: "Event list" where
  "stale_advance_trace =
    [StartGame Pattern,
     PatternAnswer ''U+1F535'', Expire 1, Expire 2,
     PatternAnswer ''U+1F535'', Expire 3,
     PatternAnswer ''U+1F319'',
     GoToMenu, StartGame FindPair,
     Expire 4, Expire 5]"

section \<open>Properties\<close>

subsection \<open>The lookup functions\<close>

lemma length_tables:
  "length allPairs = 10" "length allPatterns = 10" "length allLevels = 10" "length allSequences = 4"
  by (simp_all add: allPairs_def allPatterns_def allLevels_def allSequences_def)

lemma tables_nonempty: "allPatterns \<noteq> []" "allLevels \<noteq> []" "allSequences \<noteq> []"
  using length_tables by auto

lemma getFindPairs_invalid:
  "lvl < 1 \<or> lvl > 3 \<Longrightarrow>
   getFindPairsForLevel lvl = ([(''Invalid level for getFindPairsForLevel:'', [lvl])], take 3 allPairs)"
  by (auto simp: getFindPairsForLevel_def slice0_def)

lemma getPatterns_invalid:
  "lvl < 1 \<or> lvl > 5 \<or> index < 0 \<or> index \<ge> lvl \<Longrightarrow>
   fst (getPatternsForLevel lvl index) \<noteq> [] \<and>
   snd (getPatternsForLevel lvl index) = Some (allPatterns ! 0)"
  by (auto simp: getPatternsForLevel_def slice0_def js_index_def Let_def length_tables tables_nonempty
           split: if_splits)

lemma getDifferent_invalid:
  "lvl < 1 \<or> lvl > 5 \<or> index < 0 \<or> index \<ge> lvl \<Longrightarrow>
   fst (getDifferentForLevel lvl index) \<noteq> [] \<and>
   snd (getDifferentForLevel lvl index) = Some (allLevels ! 0)"
  by (auto simp: getDifferentForLevel_def slice0_def js_index_def Let_def length_tables tables_nonempty
           split: if_splits)

lemma getSequence_invalid:
  "lvl < 1 \<or> lvl > 4 \<Longrightarrow>
   fst (getSequenceForLevel lvl index) \<noteq> [] \<and>
   snd (getSequenceForLevel lvl index) = Some (allSequences ! 0)"
  by (auto simp: getSequenceForLevel_def js_index_def tables_nonempty)

lemma getSequence_valid:
  "1 \<le> lvl \<Longrightarrow> lvl \<le> 4 \<Longrightarrow>
   getSequenceForLevel lvl index = ([], Some (allSequences ! nat (lvl - 1)))"
  by (auto simp: getSequenceForLevel_def js_index_def length_tables)

lemma lookups_defined:
  "snd (getFindPairsForLevel lvl) \<noteq> []"
  "snd (getPatternsForLevel lvl index) \<noteq> None"
  "snd (getDifferentForLevel lvl index) \<noteq> None"
  "snd (getSequenceForLevel lvl index) \<noteq> None"
proof -
  show "snd (getFindPairsForLevel lvl) \<noteq> []"
    by (auto simp: getFindPairsForLevel_def slice0_def js_index_def allPairs_def nth_Cons'
             split: option.splits)
  show "snd (getPatternsForLevel lvl index) \<noteq> None"
    by (auto simp: getPatternsForLevel_def slice0_def js_index_def Let_def length_tables)
  show "snd (getDifferentForLevel lvl index) \<noteq> None"
    by (auto simp: getDifferentForLevel_def slice0_def js_index_def Let_def length_tables)
  show "snd (getSequenceForLevel lvl index) \<noteq> None"
    by (auto simp: getSequenceForLevel_def js_index_def length_tables split: option.splits)
qed

text \<open>
  C5, as stated, at \<^verbatim>\<open>getSequenceForLevel(2, 99)\<close>: the claim asks for a logged anomaly
  and the first sequence. The function never reads its index: it logs nothing and
  returns the second sequence.
\<close>

theorem getSequenceForLevel_index_counterexample:
  "\<not> (fst (getSequenceForLevel 2 99) \<noteq> [] \<and>
      snd (getSequenceForLevel 2 99) = Some (allSequences ! 0))"
  by (simp add: getSequenceForLevel_def js_index_def allSequences_def)

text \<open>
  C5, amended. No lookup returns \<^verbatim>\<open>undefined\<close> (and none contains an operation that
  can throw). With a level outside its declared range (3, 5, 5, 4) every lookup logs
  and returns the first entry: the three pairs of level 1, the first pattern, the first
  odd-one-out set, the first sequence. With a level in range and an index outside
  \<open>[0, level)\<close>, \<^verbatim>\<open>getPatternsForLevel\<close> and \<^verbatim>\<open>getDifferentForLevel\<close> log and return
  the first entry. \<^verbatim>\<open>getSequenceForLevel\<close> with a level in range returns that level's
  sequence for every index and logs nothing; \<^verbatim>\<open>getFindPairsForLevel\<close> has no index.
\<close>

theorem lookup_fallback:
  "(lvl < 1 \<or> lvl > 3 \<longrightarrow>
      getFindPairsForLevel lvl
        = ([(''Invalid level for getFindPairsForLevel:'', [lvl])], take 3 allPairs))
   \<and> (lvl < 1 \<or> lvl > 5 \<or> index < 0 \<or> index \<ge> lvl \<longrightarrow>
      fst (getPatternsForLevel lvl index) \<noteq> [] \<and>
      snd (getPatternsForLevel lvl index) = Some (allPatterns ! 0))
   \<and> (lvl < 1 \<or> lvl > 5 \<or> index < 0 \<or> index \<ge> lvl \<longrightarrow>
      fst (getDifferentForLevel lvl index) \<noteq> [] \<and>
      snd (getDifferentForLevel lvl index) = Some (allLevels ! 0))
   \<and> (lvl < 1 \<or> lvl > 4 \<longrightarrow>
      fst (getSequenceForLevel lvl index) \<noteq> [] \<and>
      snd (getSequenceForLevel lvl index) = Some (allSequences ! 0))
   \<and> (1 \<le> lvl \<and> lvl \<le> 4 \<longrightarrow>
      getSequenceForLevel lvl index = ([], Some (allSequences ! nat (lvl - 1))))
   \<and> snd (getFindPairsForLevel lvl) \<noteq> []
   \<and> snd (getPatternsForLevel lvl index) \<noteq> None
   \<and> snd (getDifferentForLevel lvl index) \<noteq> None
   \<and> snd (getSequenceForLevel lvl index) \<noteq> None"
proof (intro conjI impI)
  assume "lvl < 1 \<or> lvl > 3"
  then show "getFindPairsForLevel lvl
        = ([(''Invalid level for getFindPairsForLevel:'', [lvl])], take 3 allPairs)"
    by (rule getFindPairs_invalid)
next
  assume a: "lvl < 1 \<or> lvl > 5 \<or> index < 0 \<or> index \<ge> lvl"
  show "fst (getPatternsForLevel lvl index) \<noteq> []"
    using getPatterns_invalid [OF a] by simp
  show "snd (getPatternsForLevel lvl index) = Some (allPatterns ! 0)"
    using getPatterns_invalid [OF a] by simp
  show "fst (getDifferentForLevel lvl index) \<noteq> []"
    using getDifferent_invalid [OF a] by simp
  show "snd (getDifferentForLevel lvl index) = Some (allLevels ! 0)"
    using getDifferent_invalid [OF a] by simp
next
  assume a: "lvl < 1 \<or> lvl > 4"
  show "fst (getSequenceForLevel lvl index) \<noteq> []"
    using getSequence_invalid [OF a] by simp
  show "snd (getSequenceForLevel lvl index) = Some (allSequences ! 0)"
    using getSequence_invalid [OF a] by simp
next
  assume "1 \<le> lvl \<and> lvl \<le> 4"
  then show "getSequenceForLevel lvl index = ([], Some (allSequences ! nat (lvl - 1)))"
    by (simp add: getSequence_valid)
qed (rule lookups_defined)+

theorem lookup_fallback_witness:
  "(7::int) > 3 \<and> (3::int) \<ge> 3 \<and> (1::int) \<le> 2 \<and> (2::int) \<le> 4
   \<and> getFindPairsForLevel 7
        = ([(''Invalid level for getFindPairsForLevel:'', [7])], take 3 allPairs)
   \<and> fst (getPatternsForLevel 3 3) \<noteq> [] \<and> snd (getPatternsForLevel 3 3) = Some (allPatterns ! 0)
   \<and> fst (getDifferentForLevel 3 3) \<noteq> [] \<and> snd (getDifferentForLevel 3 3) = Some (allLevels ! 0)
   \<and> fst (getSequenceForLevel 7 0) \<noteq> [] \<and> snd (getSequenceForLevel 7 0) = Some (allSequences ! 0)
   \<and> getSequenceForLevel 2 99 = ([], Some (allSequences ! 1))"
  using lookup_fallback [of 7 0] lookup_fallback [of 3 3] lookup_fallback [of 2 99]
  by simp

subsection \<open>Helper facts about the primitives and the handlers\<close>

lemmas prim_defs =
  playSound_def setTimeout_def clearTimeout_def setGameState_def autoAdvanceLevel_def

lemmas init_defs =
  initMemoryGameAtLevel_def initFindPairGameAtLevel_def initPatternGameAtLevel_def
  initDifferentGameAtLevel_def initSequenceGameAtLevel_def initSimonGameAtLevel_def

lemma gameState_prims [simp]:
  "gameState (playSound x s) = gameState s"
  "gameState (setTimeout cb ms s) = gameState s"
  "gameState (clearTimeout i s) = gameState s"
  "gameState (setGameState f s) = f (gameState s)"
  by (simp_all add: playSound_def setTimeout_def clearTimeout_def setGameState_def)

lemma initGameAtLevel_1_returns:
  "initGameAtLevel t 1 ch s = Returned (state_of (initGameAtLevel t 1 ch s))"
  by (cases t) (simp_all add: initSequenceGameAtLevel_def at_level_def nth_opt_def length_tables)

lemma gameState_initGameAtLevel:
  "initGameAtLevel t lvl ch s = Returned s' \<Longrightarrow>
   gameState s' = (gameState s)\<lparr>level := lvl, maxLevel := MAX_LEVELS t\<rparr>"
  by (cases t) (auto simp: init_defs Let_def split: option.splits)

lemma initGameAtLevel_Thrown:
  "initGameAtLevel t lvl ch s = Thrown s' \<Longrightarrow> s' = s"
  by (cases t) (auto simp: initSequenceGameAtLevel_def split: option.splits)

lemma modal_initGameAtLevel:
  "showLevelCompleteModal (state_of (initGameAtLevel t lvl ch s)) = showLevelCompleteModal s"
  by (cases t) (auto simp: init_defs Let_def setGameState_def setTimeout_def split: option.splits)

lemma frame_refl: "frame s s"
  by (simp add: frame_def)

lemma frame_trans: "frame s r \<Longrightarrow> frame r q \<Longrightarrow> frame s q"
  by (auto simp: frame_def)

lemma frame_init: "frame s (state_of (initGameAtLevel t lvl ch s))"
  by (cases t) (auto simp: frame_def init_defs Let_def prim_defs split: option.splits)

lemma frame_findPair: "frame s (handleFindPairSelect side v s)"
  by (auto simp: frame_def handleFindPairSelect_def Let_def prim_defs split: option.splits)

lemma frame_pattern: "frame s (state_of (handlePatternAnswer ans s))"
  by (auto simp: frame_def handlePatternAnswer_def Let_def prim_defs split: option.splits)

lemma frame_different: "frame s (state_of (handleDifferentClick i s))"
  by (auto simp: frame_def handleDifferentClick_def Let_def prim_defs split: option.splits)

lemma frame_sequence: "frame s (state_of (handleSequenceClick item ch s))"
  by (auto simp: frame_def handleSequenceClick_def Let_def prim_defs split: option.splits)

lemma frame_simon: "frame s (state_of (handleSimonClick b s))"
  by (auto simp: frame_def handleSimonClick_def Let_def prim_defs split: option.splits)

lemma frame_fire: "frame s (state_of (fire cb ch s))"
proof (cases cb)
  case (AdvanceLevel g)
  let ?s2 = "setGameState (\<lambda>prev. prev\<lparr>level := level prev + 1\<rparr>)
               (s\<lparr>showLevelCompleteModal := False\<rparr>)"
  have a: "frame s ?s2" by (simp add: frame_def setGameState_def)
  show ?thesis
  proof (cases "type g")
    case None
    then show ?thesis using a AdvanceLevel by (simp add: fireAdvanceLevel_def Let_def)
  next
    case (Some t)
    then show ?thesis
      using frame_trans [OF a frame_init [of ?s2 t "level g + 1" ch]] AdvanceLevel
      by (simp add: fireAdvanceLevel_def Let_def)
  qed
qed (auto simp: frame_def fireMemoryMatch_def fireMemoryNoMatch_def firePatternNext_def
       fireDifferentNext_def showSimonSequence_def fireSimonShowNext_def fireSimonHide_def
       Let_def prim_defs split: option.splits)

lemma frame_expire: "frame s (state_of (expire i ch s))"
proof (cases "find (\<lambda>t. tid t = i) (timers s)")
  case None
  then show ?thesis by (simp add: expire_def frame_def)
next
  case (Some t)
  have "frame s (clearTimeout i s)" by (simp add: frame_def clearTimeout_def)
  then show ?thesis using Some frame_fire [of "clearTimeout i s" "callback t" ch]
    by (auto simp: expire_def intro: frame_trans)
qed

lemma cardClick_gameState:
  "gameState (state_of (handleCardClick i s)) = gameState s \<or>
   gameState (state_of (handleCardClick i s))
     = (gameState s)\<lparr>attempts := attempts (gameState s) + 1\<rparr>"
  by (auto simp: handleCardClick_def Let_def prim_defs split: option.splits)

lemma cardClick_screen: "currentScreen (state_of (handleCardClick i s)) = currentScreen s"
  by (auto simp: handleCardClick_def Let_def prim_defs split: option.splits)

lemma startGame_result:
  "startGame t ch s = Returned (state_of (startGame t ch s))
   \<and> gameState (state_of (startGame t ch s))
       = \<lparr>type = Some t, level = 1, maxLevel = MAX_LEVELS t, score = 0, attempts = 0\<rparr>
   \<and> currentScreen (state_of (startGame t ch s)) = Game"
proof -
  let ?r = "startGame_reset t s"
  have r: "gameState ?r = \<lparr>type = Some t, level = 1, maxLevel = 1, score = 0, attempts = 0\<rparr>"
    by (simp add: startGame_reset_def Let_def)
  obtain s' where i: "initGameAtLevel t 1 ch ?r = Returned s'"
    using initGameAtLevel_1_returns by blast
  have g: "gameState s' = (gameState ?r)\<lparr>level := 1, maxLevel := MAX_LEVELS t\<rparr>"
    using gameState_initGameAtLevel [OF i] .
  have st: "startGame t ch s = Returned (s'\<lparr>currentScreen := Game\<rparr>)"
    unfolding startGame_def i by simp
  show ?thesis using r g st by simp
qed

lemma restartGame_typed:
  "type (gameState s) = Some t \<Longrightarrow>
   gameState (state_of (restartGame ch s))
     = \<lparr>type = Some t, level = 1, maxLevel = MAX_LEVELS t, score = 0, attempts = 0\<rparr>
   \<and> currentScreen (state_of (restartGame ch s)) = Game"
  using startGame_result
  by (simp add: restartGame_def Let_def)

lemma restartGame_untyped:
  "type (gameState s) = None \<Longrightarrow>
   gameState (state_of (restartGame ch s)) = gameState s
   \<and> currentScreen (state_of (restartGame ch s)) = currentScreen s"
  by (simp add: restartGame_def Let_def playSound_def)

lemma goToMenu_screen: "currentScreen (goToMenu s) = Menu"
  by (simp add: goToMenu_def Let_def clearTimeout_def split: option.splits)

lemma frame_session_event: "session_event e \<Longrightarrow> frame s (step ch s e) \<or>
    (\<exists>i. e = CardClick i)"
  by (cases e)
     (simp_all add: step_def frame_findPair frame_pattern frame_different frame_sequence
        frame_simon frame_expire, simp_all add: frame_def playSound_def)

text \<open>On the game screen a game type is set: kept by every event.\<close>

lemma typed_screen_step:
  assumes "currentScreen s = Game \<longrightarrow> type (gameState s) \<noteq> None"
  shows "currentScreen (step ch s e) = Game \<longrightarrow> type (gameState (step ch s e)) \<noteq> None"
proof (cases e)
  case (StartGame t)
  then show ?thesis using startGame_result [of t ch s] by (simp add: step_def)
next
  case GoToMenu
  then show ?thesis by (simp add: step_def goToMenu_screen)
next
  case RestartGame
  then show ?thesis
    using assms restartGame_typed [of s _ ch] restartGame_untyped [of s ch]
    by (cases "type (gameState s)") (auto simp: step_def)
next
  case (CardClick i)
  then show ?thesis
    using assms cardClick_gameState [of i s] cardClick_screen [of i s]
    by (auto simp: step_def)
qed (use assms frame_session_event [of e s ch] in \<open>auto simp: frame_def\<close>)

subsection \<open>Starting a game\<close>

text \<open>
  C1, as stated, for the memory game: the claim puts \<open>maxLevel = 5\<close> into the one update
  \<^verbatim>\<open>startGame\<close> makes before the variant's init runs. That update writes \<open>maxLevel = 1\<close>.
\<close>

theorem startGame_reset_counterexample:
  "gameState (startGame_reset Memory initialApp)
     \<noteq> \<lparr>type = Some Memory, level = 1, maxLevel = MAX_LEVELS Memory, score = 0, attempts = 0\<rparr>"
  by (simp add: startGame_reset_def Let_def)

text \<open>
  C1, amended. For every game type \<open>t\<close>, the single \<^verbatim>\<open>setGameState\<close> of \<^verbatim>\<open>startGame\<close> writes
  \<open>{type = t, level = 1, maxLevel = 1, score = 0, attempts = 0}\<close> before the variant's
  init runs and before the screen changes; init(1) then sets \<open>maxLevel\<close> to the declared
  total of \<open>t\<close>. \<^verbatim>\<open>startGame\<close> returns (no init throws at level 1), and in the state it
  leaves, the first one rendered, the session state is \<open>{t, 1, MAX_LEVELS t, 0, 0}\<close> and the
  screen is the game view. From then on every event keeps the rule that on the game
  view a game type is set.
\<close>

theorem startGame_establishes:
  "gameState (startGame_reset t s)
     = \<lparr>type = Some t, level = 1, maxLevel = 1, score = 0, attempts = 0\<rparr>
   \<and> currentScreen (startGame_reset t s) = currentScreen s
   \<and> startGame t ch s = Returned (state_of (startGame t ch s))
   \<and> gameState (state_of (startGame t ch s))
       = \<lparr>type = Some t, level = 1, maxLevel = MAX_LEVELS t, score = 0, attempts = 0\<rparr>
   \<and> currentScreen (state_of (startGame t ch s)) = Game
   \<and> ((currentScreen s = Game \<longrightarrow> type (gameState s) \<noteq> None) \<longrightarrow>
        (currentScreen (step ch s e) = Game \<longrightarrow> type (gameState (step ch s e)) \<noteq> None))"
proof (intro conjI)
  show "gameState (startGame_reset t s)
     = \<lparr>type = Some t, level = 1, maxLevel = 1, score = 0, attempts = 0\<rparr>"
    by (simp add: startGame_reset_def Let_def)
  show "currentScreen (startGame_reset t s) = currentScreen s"
    by (simp add: startGame_reset_def Let_def playSound_def)
  show "(currentScreen s = Game \<longrightarrow> type (gameState s) \<noteq> None) \<longrightarrow>
        (currentScreen (step ch s e) = Game \<longrightarrow> type (gameState (step ch s e)) \<noteq> None)"
    using typed_screen_step by blast
qed (use startGame_result [of t ch s] in blast)+

text \<open>C1 at the colour-repeat game, started from the initial state.\<close>

theorem startGame_establishes_witness:
  "currentScreen initialApp \<noteq> Game
   \<and> gameState (startGame_reset Simon initialApp)
       = \<lparr>type = Some Simon, level = 1, maxLevel = 1, score = 0, attempts = 0\<rparr>
   \<and> gameState (state_of (startGame Simon noShuffle initialApp))
       = \<lparr>type = Some Simon, level = 1, maxLevel = 10, score = 0, attempts = 0\<rparr>
   \<and> currentScreen (step noShuffle initialApp (StartGame Simon)) = Game
   \<and> type (gameState (step noShuffle initialApp (StartGame Simon))) \<noteq> None"
  using startGame_establishes [of Simon initialApp noShuffle "StartGame Simon"]
  by (simp add: initialApp_def step_def)

subsection \<open>Level progression\<close>

text \<open>
  What the coordinator does, by itself. \<^verbatim>\<open>autoAdvanceLevel\<close> is called with the
  \<^verbatim>\<open>gameState\<close> \<open>g\<close> of the render that signalled completion. If \<open>level g < maxLevel g\<close> it
  raises the level-complete modal, leaves the session state alone and schedules exactly
  one callback, 1500 ms later. That callback clears the modal and calls the init of the
  game type of \<open>g\<close> with \<open>level g + 1\<close>: the type and the level captured at the signal,
  not those of the moment it runs. Only when the level is still the one of \<open>g\<close> does it
  leave the level exactly one higher. If \<open>level g = maxLevel g\<close> the win modal is raised
  and no callback is scheduled.
\<close>

theorem autoAdvanceLevel_progression:
  "(level g < maxLevel g \<longrightarrow>
      showLevelCompleteModal (autoAdvanceLevel g s)
      \<and> showWinModal (autoAdvanceLevel g s) = showWinModal s
      \<and> gameState (autoAdvanceLevel g s) = gameState s
      \<and> timers (autoAdvanceLevel g s)
          = timers s @ [\<lparr>tid = nextTimerId s, delay = 1500, callback = AdvanceLevel g\<rparr>])
   \<and> \<not> showLevelCompleteModal (state_of (fire (AdvanceLevel g) ch s'))
   \<and> (level (gameState s') = level g \<longrightarrow>
        level (gameState (state_of (fire (AdvanceLevel g) ch s'))) = level (gameState s') + 1)
   \<and> (type g = Some t \<longrightarrow>
        fire (AdvanceLevel g) ch s'
          = initGameAtLevel t (level g + 1) ch
              (setGameState (\<lambda>prev. prev\<lparr>level := level prev + 1\<rparr>)
                 (s'\<lparr>showLevelCompleteModal := False\<rparr>)))
   \<and> (level g = maxLevel g \<longrightarrow>
        showWinModal (autoAdvanceLevel g s)
        \<and> showLevelCompleteModal (autoAdvanceLevel g s) = showLevelCompleteModal s
        \<and> gameState (autoAdvanceLevel g s) = gameState s
        \<and> timers (autoAdvanceLevel g s) = timers s)"
proof (intro conjI impI)
  assume "level g = maxLevel g"
  then have top: "autoAdvanceLevel g s = playSound Win (s\<lparr>showWinModal := True\<rparr>)"
    by (simp add: autoAdvanceLevel_def)
  show "showWinModal (autoAdvanceLevel g s)"
    "showLevelCompleteModal (autoAdvanceLevel g s) = showLevelCompleteModal s"
    "gameState (autoAdvanceLevel g s) = gameState s"
    "timers (autoAdvanceLevel g s) = timers s"
    by (simp_all add: top playSound_def)
next
  let ?s2 = "setGameState (\<lambda>prev. prev\<lparr>level := level prev + 1\<rparr>)
               (s'\<lparr>showLevelCompleteModal := False\<rparr>)"
  have m2: "\<not> showLevelCompleteModal ?s2" by (simp add: setGameState_def)
  show "\<not> showLevelCompleteModal (state_of (fire (AdvanceLevel g) ch s'))"
    using m2 modal_initGameAtLevel [of _ "level g + 1" ch ?s2]
    by (cases "type g") (simp_all add: fireAdvanceLevel_def Let_def)
  {
    assume eq: "level (gameState s') = level g"
    show "level (gameState (state_of (fire (AdvanceLevel g) ch s'))) = level (gameState s') + 1"
    proof (cases "type g")
      case None
      then show ?thesis by (simp add: fireAdvanceLevel_def Let_def)
    next
      case (Some t')
      show ?thesis
      proof (cases "initGameAtLevel t' (level g + 1) ch ?s2")
        case (Returned r)
        then show ?thesis using gameState_initGameAtLevel [OF Returned] Some eq
          by (simp add: fireAdvanceLevel_def Let_def)
      next
        case (Thrown r)
        then show ?thesis using initGameAtLevel_Thrown [OF Thrown] Some eq
          by (simp add: fireAdvanceLevel_def Let_def)
      qed
    qed
  }
  {
    assume "type g = Some t"
    then show "fire (AdvanceLevel g) ch s' = initGameAtLevel t (level g + 1) ch ?s2"
      by (simp add: fireAdvanceLevel_def Let_def)
  }
qed (simp_all add: autoAdvanceLevel_def setTimeout_def)

text \<open>The same at level 1 of 5 of the pattern game and at level 3 of 3 of pair matching.\<close>

theorem autoAdvanceLevel_progression_witness:
  "level \<lparr>type = Some Pattern, level = 1, maxLevel = 5, score = 10, attempts = 0\<rparr>
     < maxLevel \<lparr>type = Some Pattern, level = 1, maxLevel = 5, score = 10, attempts = 0\<rparr>
   \<and> timers (autoAdvanceLevel \<lparr>type = Some Pattern, level = 1, maxLevel = 5, score = 10, attempts = 0\<rparr> initialApp)
       = [\<lparr>tid = 1, delay = 1500,
           callback = AdvanceLevel \<lparr>type = Some Pattern, level = 1, maxLevel = 5, score = 10, attempts = 0\<rparr>\<rparr>]
   \<and> showLevelCompleteModal (autoAdvanceLevel \<lparr>type = Some Pattern, level = 1, maxLevel = 5, score = 10, attempts = 0\<rparr> initialApp)
   \<and> level (gameState (state_of (fire (AdvanceLevel \<lparr>type = Some Pattern, level = 1, maxLevel = 5, score = 10, attempts = 0\<rparr>) noShuffle initialApp))) = 2
   \<and> level \<lparr>type = Some FindPair, level = 3, maxLevel = 3, score = 0, attempts = 0\<rparr>
     = maxLevel \<lparr>type = Some FindPair, level = 3, maxLevel = 3, score = 0, attempts = 0\<rparr>
   \<and> showWinModal (autoAdvanceLevel \<lparr>type = Some FindPair, level = 3, maxLevel = 3, score = 0, attempts = 0\<rparr> initialApp)
   \<and> timers (autoAdvanceLevel \<lparr>type = Some FindPair, level = 3, maxLevel = 3, score = 0, attempts = 0\<rparr> initialApp) = []"
  using autoAdvanceLevel_progression
          [of "\<lparr>type = Some Pattern, level = 1, maxLevel = 5, score = 10, attempts = 0\<rparr>"
              initialApp noShuffle initialApp Pattern]
        autoAdvanceLevel_progression
          [of "\<lparr>type = Some FindPair, level = 3, maxLevel = 3, score = 0, attempts = 0\<rparr>"
              initialApp noShuffle initialApp FindPair]
  by (simp add: initialApp_def initPatternGameAtLevel_def setGameState_def)

text \<open>
  C3 fails on the code. The callback that advances the level is not cancelled when the
  player leaves the game. Here the pattern game is abandoned at the end of its level 2,
  within the second of feedback, and pair matching is started. Every event is offered
  by the screen it meets. Before the last event the session is pair matching at level 1
  of 3, the level-complete modal is up and the advance scheduled by the pattern game
  (level 2 of 5) is the one pending callback. When it runs, the level goes from 1 to 3,
  not to 2, and \<open>maxLevel\<close> becomes 5; the init that was called is the pattern game's
  (its feedback is cleared), not the one of the active variant (the level of pair
  matching, which its init would set, is still 1).
\<close>

theorem stale_advance_skips_level:
  "enabled_run noShuffle initialApp stale_advance_trace
   \<and> gameState (run noShuffle initialApp (butlast stale_advance_trace))
       = \<lparr>type = Some FindPair, level = 1, maxLevel = 3, score = 0, attempts = 0\<rparr>
   \<and> showLevelCompleteModal (run noShuffle initialApp (butlast stale_advance_trace))
   \<and> timers (run noShuffle initialApp (butlast stale_advance_trace))
       = [\<lparr>tid = 5, delay = 1500,
           callback = AdvanceLevel
             \<lparr>type = Some Pattern, level = 2, maxLevel = 5, score = 20, attempts = 0\<rparr>\<rparr>]
   \<and> patternFeedback (run noShuffle initialApp (butlast stale_advance_trace)) = Some ''correct''
   \<and> last stale_advance_trace = Expire 5
   \<and> gameState (run noShuffle initialApp stale_advance_trace)
       = \<lparr>type = Some FindPair, level = 3, maxLevel = 5, score = 0, attempts = 0\<rparr>
   \<and> level (gameState (run noShuffle initialApp stale_advance_trace))
       \<noteq> level (gameState (run noShuffle initialApp (butlast stale_advance_trace))) + 1
   \<and> \<not> showLevelCompleteModal (run noShuffle initialApp stale_advance_trace)
   \<and> patternFeedback (run noShuffle initialApp stale_advance_trace) = None
   \<and> currentFindPairLevel (run noShuffle initialApp stale_advance_trace) = 1
   \<and> currentScreen (run noShuffle initialApp stale_advance_trace) = Game"
  by code_simp

lemma score_step: "session_event e \<Longrightarrow> score (gameState s) \<le> score (gameState (step ch s e))"
proof (cases "\<exists>i. e = CardClick i")
  case True
  then obtain i where "e = CardClick i" ..
  then show ?thesis using cardClick_gameState [of i s] by (auto simp: step_def)
next
  case False
  assume "session_event e"
  then show ?thesis using False frame_session_event [of e s ch] by (auto simp: frame_def)
qed

lemma score_steps:
  "\<forall>ce\<in>set ces. session_event (snd ce) \<Longrightarrow>
   score (gameState s) \<le> score (gameState (steps s ces))"
proof (induction ces arbitrary: s)
  case Nil
  then show ?case by (simp add: steps_def)
next
  case (Cons ce ces)
  obtain ch e where ce: "ce = (ch, e)" by (cases ce)
  have "score (gameState s) \<le> score (gameState (step ch s e))"
    using Cons.prems ce by (simp add: score_step)
  also have "\<dots> \<le> score (gameState (steps (step ch s e) ces))"
    using Cons by simp
  finally show ?case by (simp add: steps_def ce)
qed

lemma run_steps: "run ch s es = steps s (map (Pair ch) es)"
  by (induction es arbitrary: s) (simp_all add: run_def steps_def)

subsection \<open>Score and attempts\<close>

text \<open>
  C4. A list of events none of which is \<^verbatim>\<open>startGame\<close>, \<^verbatim>\<open>restartGame\<close> or \<^verbatim>\<open>goToMenu\<close>
  (clicks and timer expiries, whatever state and pending timers it starts from and
  whatever \<^verbatim>\<open>Math.random\<close> returns) never lowers the score; \<^verbatim>\<open>startGame\<close> sets the score to 0, and so does \<^verbatim>\<open>restartGame\<close> when a
  game type is set.
\<close>

theorem score_never_decreases:
  "((\<forall>ce\<in>set ces. session_event (snd ce)) \<longrightarrow>
       score (gameState s) \<le> score (gameState (steps s ces)))
   \<and> score (gameState (state_of (startGame t ch s))) = 0
   \<and> (type (gameState s) \<noteq> None \<longrightarrow> score (gameState (state_of (restartGame ch s))) = 0)"
  using score_steps [of ces s] startGame_result [of t ch s] restartGame_typed [of s _ ch]
  by auto



text \<open>C4 on the first level of the pattern game: the score goes from 0 to 10.\<close>

theorem score_never_decreases_witness:
  "session_event (PatternAnswer ''U+1F535'') \<and> session_event (Expire 1)
   \<and> score (gameState (run noShuffle initialApp [StartGame Pattern])) = 0
   \<and> score (gameState (run noShuffle initialApp [StartGame Pattern]))
       \<le> score (gameState (steps (run noShuffle initialApp [StartGame Pattern])
                               [(noShuffle, PatternAnswer ''U+1F535''), (noShuffle, Expire 1)]))
   \<and> score (gameState (steps (run noShuffle initialApp [StartGame Pattern])
                               [(noShuffle, PatternAnswer ''U+1F535''), (noShuffle, Expire 1)])) = 10
   \<and> type (gameState (run noShuffle initialApp [StartGame Pattern])) \<noteq> None
   \<and> score (gameState (state_of (restartGame noShuffle (run noShuffle initialApp [StartGame Pattern])))) = 0"
proof -
  have a: "score (gameState (steps (run noShuffle initialApp [StartGame Pattern])
                               [(noShuffle, PatternAnswer ''U+1F535''), (noShuffle, Expire 1)])) = 10"
    by code_simp
  have b: "type (gameState (run noShuffle initialApp [StartGame Pattern])) \<noteq> None"
    by code_simp
  have c: "score (gameState (run noShuffle initialApp [StartGame Pattern])) = 0"
    by code_simp
  show ?thesis
    using a b c
      score_never_decreases
        [of "[(noShuffle, PatternAnswer ''U+1F535''), (noShuffle, Expire 1)]"
            "run noShuffle initialApp [StartGame Pattern]" Pattern noShuffle]
    by simp
qed



subsection \<open>Pattern game, level 1\<close>

lemma first_pattern:
  "nth_opt (take (Suc 0) allPatterns) 0 = Some (allPatterns ! 0)"
  "answer (allPatterns ! 0) = ''U+1F535''"
  "sequence (allPatterns ! 0) = [''U+1F534'', ''U+1F535'', ''U+1F534'', ''U+1F535'', ''U+1F534'', ''?'']"
  "length (take (Suc 0) allPatterns) = Suc 0"
  by (simp_all add: nth_opt_def allPatterns_def)

lemma first_pattern_shown:
  "getPatternsForLevel 1 0
     = ([], Some \<lparr>sequence = [''U+1F534'', ''U+1F535'', ''U+1F534'', ''U+1F535'', ''U+1F534'', ''?''],
                   answer = ''U+1F535'',
                   options = [''U+1F535'', ''U+1F7E1'', ''U+1F7E2'']\<rparr>)"
  by (simp add: getPatternsForLevel_def slice0_def js_index_def allPatterns_def)

text \<open>
  C7, as stated: after the right answer at level 1 and the feedback delay, the session
  is not session-complete. The win modal is not shown.
\<close>

theorem pattern_level1_counterexample:
  "\<not> showWinModal
       (run noShuffle initialApp [StartGame Pattern, PatternAnswer ''U+1F535'', Expire 1])"
  by code_simp

text \<open>
  C7, amended. At level 1, challenge 0 of the pattern game, the pattern shown is red,
  blue, red, blue, red, ?. An option other than the blue circle leaves the score and sets the feedback to \<open>wrong\<close>; the blue circle adds
  exactly 10 and sets it to \<open>correct\<close>. Either answer schedules, 1000 ms later, the
  callback that ends the level, and with \<open>maxLevel = 5\<close> that callback raises the
  level-complete modal, not the win modal, and schedules the advance to level 2.
\<close>

theorem pattern_level1:
  assumes "level (gameState s) = 1" and "currentPatternIndex s = 0"
  shows
  "getPatternsForLevel 1 0
     = ([], Some \<lparr>sequence = [''U+1F534'', ''U+1F535'', ''U+1F534'', ''U+1F535'', ''U+1F534'', ''?''],
                   answer = ''U+1F535'',
                   options = [''U+1F535'', ''U+1F7E1'', ''U+1F7E2'']\<rparr>)
   \<and> (ans \<noteq> ''U+1F535'' \<longrightarrow>
      score (gameState (state_of (handlePatternAnswer ans s))) = score (gameState s)
      \<and> patternFeedback (state_of (handlePatternAnswer ans s)) = Some ''wrong'')
   \<and> score (gameState (state_of (handlePatternAnswer ''U+1F535'' s))) = score (gameState s) + 10
   \<and> patternFeedback (state_of (handlePatternAnswer ''U+1F535'' s)) = Some ''correct''
   \<and> timers (state_of (handlePatternAnswer ans s))
       = timers s @ [\<lparr>tid = nextTimerId s, delay = 1000,
                      callback = PatternNext 0 1 (gameState s)\<rparr>]
   \<and> (maxLevel (gameState s) = MAX_LEVELS Pattern \<longrightarrow>
        showLevelCompleteModal (firePatternNext 0 1 (gameState s) s')
        \<and> showWinModal (firePatternNext 0 1 (gameState s) s') = showWinModal s'
        \<and> gameState (firePatternNext 0 1 (gameState s) s') = gameState s'
        \<and> timers (firePatternNext 0 1 (gameState s) s')
            = timers s' @ [\<lparr>tid = nextTimerId s', delay = 1500,
                            callback = AdvanceLevel (gameState s)\<rparr>])"
  using assms
  by (auto simp: handlePatternAnswer_def firePatternNext_def Let_def first_pattern prim_defs
      length_tables first_pattern_shown)

text \<open>C7 played from the initial state: level-complete, then level 2 of 5 with score 10.\<close>

theorem pattern_level1_witness:
  "level (gameState (run noShuffle initialApp [StartGame Pattern])) = 1
   \<and> currentPatternIndex (run noShuffle initialApp [StartGame Pattern]) = 0
   \<and> maxLevel (gameState (run noShuffle initialApp [StartGame Pattern])) = MAX_LEVELS Pattern
   \<and> ''U+1F7E1'' \<noteq> ''U+1F535''
   \<and> score (gameState (state_of (handlePatternAnswer ''U+1F7E1''
         (run noShuffle initialApp [StartGame Pattern])))) = 0
   \<and> patternFeedback (state_of (handlePatternAnswer ''U+1F7E1''
         (run noShuffle initialApp [StartGame Pattern]))) = Some ''wrong''
   \<and> score (gameState (state_of (handlePatternAnswer ''U+1F535''
         (run noShuffle initialApp [StartGame Pattern])))) = 10
   \<and> showLevelCompleteModal
        (run noShuffle initialApp [StartGame Pattern, PatternAnswer ''U+1F535'', Expire 1])
   \<and> gameState
        (run noShuffle initialApp [StartGame Pattern, PatternAnswer ''U+1F535'', Expire 1, Expire 2])
       = \<lparr>type = Some Pattern, level = 2, maxLevel = 5, score = 10, attempts = 0\<rparr>"
proof -
  let ?s = "run noShuffle initialApp [StartGame Pattern]"
  have a: "level (gameState ?s) = 1" "currentPatternIndex ?s = 0"
    "maxLevel (gameState ?s) = MAX_LEVELS Pattern" "score (gameState ?s) = 0"
    by code_simp+
  have b: "showLevelCompleteModal
        (run noShuffle initialApp [StartGame Pattern, PatternAnswer ''U+1F535'', Expire 1])"
    by code_simp
  have c: "gameState
        (run noShuffle initialApp [StartGame Pattern, PatternAnswer ''U+1F535'', Expire 1, Expire 2])
       = \<lparr>type = Some Pattern, level = 2, maxLevel = 5, score = 10, attempts = 0\<rparr>"
    by code_simp
  show ?thesis
    using a b c pattern_level1 [of ?s "''U+1F7E1''"]
    by simp
qed

subsection \<open>Sequence game\<close>

lemma first_sequence:
  "nth_opt allSequences 0 = Some (allSequences ! 0)"
  "length (correctOrder (allSequences ! 0)) = 4"
  "mset (items (allSequences ! 0)) = mset (correctOrder (allSequences ! 0))"
  by (simp_all add: nth_opt_def allSequences_def)

text \<open>
  C8 fails on the code. \<^verbatim>\<open>correctIndex\<close> counts the items that remain, not the items
  removed. While the pool is an arrangement of the four items of the first sequence the
  expected item is \<^verbatim>\<open>correctOrder[4]\<close>, which is \<^verbatim>\<open>undefined\<close>: every click, the first item
  of the correct order included, is evaluated as wrong and changes nothing but the
  sound.
\<close>

theorem sequence_click_rejected:
  assumes "currentSequenceIndex s = 0"
    and "mset (sequenceItems s) = mset (items (allSequences ! 0))"
  shows "handleSequenceClick item ch s = Returned (playSound Wrong s)"
proof -
  have m: "mset (sequenceItems s) = mset (correctOrder (allSequences ! 0))"
    using assms(2) first_sequence(3) by simp
  then have "set (sequenceItems s) = set (correctOrder (allSequences ! 0))"
    by (rule mset_eq_setD)
  then have "filter (\<lambda>i. i \<in> set (correctOrder (allSequences ! 0))) (sequenceItems s) = sequenceItems s"
    by simp
  moreover have "length (sequenceItems s) = 4"
    using m first_sequence(2) by (metis size_mset)
  ultimately have "correctIndex (allSequences ! 0) s = 4"
    by (simp add: correctIndex_def)
  then show ?thesis
    using assms(1) first_sequence
    by (simp add: handleSequenceClick_def nth_opt_def)
qed


text \<open>
  C8 at its failing input: the sequence game just started, no item removed, a click on
  the first item of the correct order.
\<close>

theorem sequence_click_rejected_witness:
  "currentSequenceIndex (run noShuffle initialApp [StartGame Sequence]) = 0
   \<and> mset (sequenceItems (run noShuffle initialApp [StartGame Sequence]))
       = mset (items (allSequences ! 0))
   \<and> enabled_run noShuffle initialApp [StartGame Sequence, SequenceClick ''U+1F331'']
   \<and> nth_opt (correctOrder (allSequences ! 0)) 0 = Some ''U+1F331''
   \<and> handleSequenceClick ''U+1F331'' noShuffle (run noShuffle initialApp [StartGame Sequence])
       = Returned (playSound Wrong (run noShuffle initialApp [StartGame Sequence]))
   \<and> score (gameState (run noShuffle initialApp [StartGame Sequence, SequenceClick ''U+1F331''])) = 0
   \<and> sequenceItems (run noShuffle initialApp [StartGame Sequence, SequenceClick ''U+1F331''])
       = sequenceItems (run noShuffle initialApp [StartGame Sequence])"
proof -
  let ?s = "run noShuffle initialApp [StartGame Sequence]"
  have a: "currentSequenceIndex ?s = 0" by code_simp
  have b: "sequenceItems ?s = items (allSequences ! 0)" by code_simp
  have c: "enabled_run noShuffle initialApp [StartGame Sequence, SequenceClick ''U+1F331'']"
    by code_simp
  have d: "nth_opt (correctOrder (allSequences ! 0)) 0 = Some ''U+1F331''"
    by (simp add: nth_opt_def allSequences_def)
  have e: "score (gameState (run noShuffle initialApp [StartGame Sequence, SequenceClick ''U+1F331''])) = 0"
    "sequenceItems (run noShuffle initialApp [StartGame Sequence, SequenceClick ''U+1F331''])
       = sequenceItems (run noShuffle initialApp [StartGame Sequence])"
    by code_simp+
  show ?thesis
    using a b c d e sequence_click_rejected [of ?s "''U+1F331''" noShuffle]
    by simp
qed


subsection \<open>What a correct answer scores\<close>


subsection \<open>Pair matching: the win check\<close>

lemma allPairs_facts:
  "distinct (map image' allPairs)"
  "\<forall>p\<in>set allPairs. image' p \<noteq> [] \<and> word p \<noteq> []"
  by (simp_all add: allPairs_def)

lemma levelPairs_subset: "set (levelPairs s) \<subseteq> set allPairs"
  by (auto simp: levelPairs_def split: option.splits dest: in_set_takeD)

lemma find_levelPairs:
  assumes "p \<in> set (levelPairs s)"
  shows "find (\<lambda>q. Some (image' q) = Some (image' p) \<and> Some (word q) = Some (word p)) (levelPairs s) = Some p"
proof -
  obtain q where q: "find (\<lambda>q. Some (image' q) = Some (image' p) \<and> Some (word q) = Some (word p)) (levelPairs s) = Some q"
    using assms by (cases "find (\<lambda>q. Some (image' q) = Some (image' p) \<and> Some (word q) = Some (word p)) (levelPairs s)") (auto simp: find_None_iff)
  then have "image' q = image' p \<and> word q = word p"
    by (auto simp: find_Some_iff)
  then have "q = p" by simp
  then show ?thesis using q by simp
qed


lemma findPair_correct:
  assumes "completes side v s p"
  shows "handleFindPairSelect side v s =
     (let base = playSound Correct
                   (setGameState (\<lambda>prev. prev\<lparr>score := score prev + 10\<rparr>)
                      ((playSound Click s)
                         \<lparr>selectedPair := \<lparr>image_sel = Some (image' p), word_sel = Some (word p)\<rparr>,
                          pairedItems := finsert (image' p) (pairedItems s)\<rparr>))
      in (if (case pairsCount s of None \<Rightarrow> False
                                 | Some n \<Rightarrow> int (fcard (pairedItems s)) = int n - 1)
          then autoAdvanceLevel (gameState s) (playSound Win base)
          else base)\<lparr>selectedPair := \<lparr>image_sel = None, word_sel = None\<rparr>\<rparr>)"
proof -
  have p: "p \<in> set (levelPairs s)" and new: "image' p |\<notin>| pairedItems s"
    using assms by (simp_all add: completes_def)
  have ne: "image' p \<noteq> []" "word p \<noteq> []"
    using p levelPairs_subset allPairs_facts(2) by blast+
  have sel: "(case side of Image' \<Rightarrow> (selectedPair s)\<lparr>image_sel := Some v\<rparr>
                         | Word' \<Rightarrow> (selectedPair s)\<lparr>word_sel := Some v\<rparr>)
             = \<lparr>image_sel = Some (image' p), word_sel = Some (word p)\<rparr>"
    using assms by (cases side; cases "selectedPair s") (auto simp: completes_def)
  have ps: "pairedItems (playSound Click s) = pairedItems s"
    by (simp add: playSound_def)
  show ?thesis
    unfolding handleFindPairSelect_def Let_def sel
    using find_levelPairs [OF p] new ne
    by (simp add: truthy_def ps)
qed

lemma pairsCount_cases: "pairsCount s = Some n \<Longrightarrow> n = 3 \<or> n = 5 \<or> n = 7"
  by (auto simp: pairsCount_def at_level_def nth_opt_def nth_Cons' split: if_splits)

lemma fcard_levelImages: "pairsCount s = Some n \<Longrightarrow> fcard (levelImages s) = n"
proof -
  assume a: "pairsCount s = Some n"
  have "distinct (map image' (take n allPairs))"
    using allPairs_facts(1) by (simp add: take_map [symmetric] distinct_take)
  then have "card (set (map image' (take n allPairs))) = length (take n allPairs)"
    using distinct_card by fastforce
  moreover have "length (take n allPairs) = n"
    using pairsCount_cases [OF a] by (auto simp: length_tables)
  ultimately show ?thesis
    using a by (simp add: levelImages_def levelPairs_def fcard.rep_eq fset_of_list.rep_eq)
qed

lemma win_count:
  assumes "A |\<subseteq>| U" "x |\<in>| U" "x |\<notin>| A"
  shows "(int (fcard A) = int (fcard U) - 1) = (finsert x A = U)"
    and "(fcard (finsert x A) = fcard U) = (finsert x A = U)"
proof -
  have c: "fcard (finsert x A) = Suc (fcard A)"
    using assms(3) by (simp add: fcard_finsert_disjoint)
  have s: "finsert x A |\<subseteq>| U" using assms by auto
  show 2: "(fcard (finsert x A) = fcard U) = (finsert x A = U)"
    using fcard_seteq [OF s] by auto
  show "(int (fcard A) = int (fcard U) - 1) = (finsert x A = U)"
    using 2 c by auto
qed

text \<open>
  C6. Let the click complete the selection of a pair of the level that is not matched
  yet, in a level with \<open>n\<close> pairs, all matched pairs being pairs of the level and no
  modal showing. The handler inserts the pair's image. Its check
  \<^verbatim>\<open>pairedItems.size === pairsCount - 1\<close>, on the set before the insertion, holds exactly
  when the set after the insertion is the whole level, that is when it has \<open>n\<close> elements;
  and exactly then the handler calls \<^verbatim>\<open>autoAdvanceLevel\<close>, which raises one of the two
  modals.
\<close>

theorem findPair_win_check:
  assumes "completes side v s p"
    and "pairsCount s = Some n"
    and "pairedItems s |\<subseteq>| levelImages s"
    and "\<not> showLevelCompleteModal s" and "\<not> showWinModal s"
  shows "pairedItems (handleFindPairSelect side v s) = finsert (image' p) (pairedItems s)
    \<and> (int (fcard (pairedItems s)) = int n - 1)
        = (pairedItems (handleFindPairSelect side v s) = levelImages s)
    \<and> (fcard (pairedItems (handleFindPairSelect side v s)) = n)
        = (pairedItems (handleFindPairSelect side v s) = levelImages s)
    \<and> (showLevelCompleteModal (handleFindPairSelect side v s)
          \<or> showWinModal (handleFindPairSelect side v s))
        = (pairedItems (handleFindPairSelect side v s) = levelImages s)
    \<and> handleFindPairSelect side v s
        = (if pairedItems (handleFindPairSelect side v s) = levelImages s
           then autoAdvanceLevel (gameState s)
                  (playSound Win (playSound Correct
                     (setGameState (\<lambda>prev. prev\<lparr>score := score prev + 10\<rparr>)
                        ((playSound Click s)\<lparr>pairedItems := finsert (image' p) (pairedItems s)\<rparr>))))
           else playSound Correct
                  (setGameState (\<lambda>prev. prev\<lparr>score := score prev + 10\<rparr>)
                     ((playSound Click s)\<lparr>pairedItems := finsert (image' p) (pairedItems s)\<rparr>)))
          \<lparr>selectedPair := \<lparr>image_sel = None, word_sel = None\<rparr>\<rparr>"
proof -
  let ?r = "handleFindPairSelect side v s"
  have mem: "image' p |\<in>| levelImages s" and new: "image' p |\<notin>| pairedItems s"
    using assms(1) by (auto simp: completes_def levelImages_def fset_of_list_elem)
  have n: "fcard (levelImages s) = n" using assms(2) by (rule fcard_levelImages)
  have pr: "pairedItems ?r = finsert (image' p) (pairedItems s)"
    unfolding findPair_correct [OF assms(1)]
    by (simp add: Let_def prim_defs)
  have chk: "(int (fcard (pairedItems s)) = int n - 1) = (pairedItems ?r = levelImages s)"
    using win_count(1) [OF assms(3) mem new] n pr by simp
  have cnt: "(fcard (pairedItems ?r) = n) = (pairedItems ?r = levelImages s)"
    using win_count(2) [OF assms(3) mem new] n pr by simp
  have sig: "(showLevelCompleteModal ?r \<or> showWinModal ?r) = (int (fcard (pairedItems s)) = int n - 1)"
    unfolding findPair_correct [OF assms(1)]
    using assms(2,4,5) by (simp add: Let_def prim_defs)
  have eq: "?r = (if int (fcard (pairedItems s)) = int n - 1
           then autoAdvanceLevel (gameState s)
                  (playSound Win (playSound Correct
                     (setGameState (\<lambda>prev. prev\<lparr>score := score prev + 10\<rparr>)
                        ((playSound Click s)\<lparr>pairedItems := finsert (image' p) (pairedItems s)\<rparr>))))
           else playSound Correct
                  (setGameState (\<lambda>prev. prev\<lparr>score := score prev + 10\<rparr>)
                     ((playSound Click s)\<lparr>pairedItems := finsert (image' p) (pairedItems s)\<rparr>)))
          \<lparr>selectedPair := \<lparr>image_sel = None, word_sel = None\<rparr>\<rparr>"
    unfolding findPair_correct [OF assms(1)]
    using assms(2) by (simp add: Let_def prim_defs)
  note sig' = sig [unfolded chk] and eq' = eq [unfolded chk]
  show ?thesis
    by (intro conjI) (rule pr chk cnt sig' eq')+
qed


text \<open>C6 at the third and last pair of level 1, and at its first pair.\<close>

theorem findPair_win_check_witness:
  "completes Word' ''Coelho''
     (run noShuffle initialApp
        [StartGame FindPair, FindPairSelect Image' ''U+1F436'', FindPairSelect Word' ''Cachorro'',
         FindPairSelect Image' ''U+1F431'', FindPairSelect Word' ''Gato'',
         FindPairSelect Image' ''U+1F430''])
     \<lparr>image' = ''U+1F430'', word = ''Coelho''\<rparr>
   \<and> pairsCount (run noShuffle initialApp
        [StartGame FindPair, FindPairSelect Image' ''U+1F436'', FindPairSelect Word' ''Cachorro'',
         FindPairSelect Image' ''U+1F431'', FindPairSelect Word' ''Gato'',
         FindPairSelect Image' ''U+1F430'']) = Some 3
   \<and> fcard (pairedItems (run noShuffle initialApp
        [StartGame FindPair, FindPairSelect Image' ''U+1F436'', FindPairSelect Word' ''Cachorro'',
         FindPairSelect Image' ''U+1F431'', FindPairSelect Word' ''Gato'',
         FindPairSelect Image' ''U+1F430''])) = 2
   \<and> (showLevelCompleteModal (handleFindPairSelect Word' ''Coelho''
         (run noShuffle initialApp
          [StartGame FindPair, FindPairSelect Image' ''U+1F436'', FindPairSelect Word' ''Cachorro'',
           FindPairSelect Image' ''U+1F431'', FindPairSelect Word' ''Gato'',
           FindPairSelect Image' ''U+1F430'']))
      \<or> showWinModal (handleFindPairSelect Word' ''Coelho''
         (run noShuffle initialApp
          [StartGame FindPair, FindPairSelect Image' ''U+1F436'', FindPairSelect Word' ''Cachorro'',
           FindPairSelect Image' ''U+1F431'', FindPairSelect Word' ''Gato'',
           FindPairSelect Image' ''U+1F430''])))
   \<and> completes Word' ''Cachorro''
       (run noShuffle initialApp [StartGame FindPair, FindPairSelect Image' ''U+1F436''])
       \<lparr>image' = ''U+1F436'', word = ''Cachorro''\<rparr>
   \<and> fcard (pairedItems
       (run noShuffle initialApp [StartGame FindPair, FindPairSelect Image' ''U+1F436''])) = 0
   \<and> \<not> showLevelCompleteModal (handleFindPairSelect Word' ''Cachorro''
       (run noShuffle initialApp [StartGame FindPair, FindPairSelect Image' ''U+1F436'']))
   \<and> \<not> showWinModal (handleFindPairSelect Word' ''Cachorro''
       (run noShuffle initialApp [StartGame FindPair, FindPairSelect Image' ''U+1F436'']))"
proof -
  let ?s = "run noShuffle initialApp
        [StartGame FindPair, FindPairSelect Image' ''U+1F436'', FindPairSelect Word' ''Cachorro'',
         FindPairSelect Image' ''U+1F431'', FindPairSelect Word' ''Gato'',
         FindPairSelect Image' ''U+1F430'']"
  let ?p = "\<lparr>image' = ''U+1F430'', word = ''Coelho''\<rparr>"
  let ?s1 = "run noShuffle initialApp [StartGame FindPair, FindPairSelect Image' ''U+1F436'']"
  let ?p1 = "\<lparr>image' = ''U+1F436'', word = ''Cachorro''\<rparr>"
  have a: "completes Word' ''Coelho'' ?s ?p" "pairsCount ?s = Some 3"
    "pairedItems ?s |\<subseteq>| levelImages ?s" "\<not> showLevelCompleteModal ?s" "\<not> showWinModal ?s"
    by code_simp+
  have a2: "fcard (pairedItems ?s) = 2" by code_simp
  have b: "completes Word' ''Cachorro'' ?s1 ?p1" "pairsCount ?s1 = Some 3"
    "pairedItems ?s1 |\<subseteq>| levelImages ?s1" "\<not> showLevelCompleteModal ?s1" "\<not> showWinModal ?s1"
    by code_simp+
  have b2: "fcard (pairedItems ?s1) = 0" by code_simp
  have r1: "showLevelCompleteModal (handleFindPairSelect Word' ''Coelho'' ?s)
            \<or> showWinModal (handleFindPairSelect Word' ''Coelho'' ?s)"
    using findPair_win_check [OF a, THEN conjunct2, THEN conjunct1]
      findPair_win_check [OF a, THEN conjunct2, THEN conjunct2, THEN conjunct2, THEN conjunct1] a2
    by simp
  have r2: "\<not> (showLevelCompleteModal (handleFindPairSelect Word' ''Cachorro'' ?s1)
            \<or> showWinModal (handleFindPairSelect Word' ''Cachorro'' ?s1))"
    using findPair_win_check [OF b, THEN conjunct2, THEN conjunct1]
      findPair_win_check [OF b, THEN conjunct2, THEN conjunct2, THEN conjunct2, THEN conjunct1] b2
    by simp
  show ?thesis
    using a a2 b b2 r1 r2 by simp
qed


text \<open>The hypothesis of C6 on the matched pairs holds in every state the program reaches.\<close>

lemma fp_same_inv: "fp_same s r \<Longrightarrow> pairs_inv s \<Longrightarrow> pairs_inv r"
  by (simp add: fp_same_def pairs_inv_def levelImages_def levelPairs_def pairsCount_def)

lemma pairs_inv_init: "pairs_inv s \<Longrightarrow> pairs_inv (state_of (initGameAtLevel t lvl ch s))"
  by (cases t)
     (auto simp: pairs_inv_def levelImages_def levelPairs_def pairsCount_def init_defs Let_def
        prim_defs split: option.splits)

lemma find_in_set: "find P xs = Some x \<Longrightarrow> x \<in> set xs"
  by (induction xs) (auto split: if_splits)

lemma findPair_pairedItems:
  "currentFindPairLevel (handleFindPairSelect side v s) = currentFindPairLevel s \<and>
   (pairedItems (handleFindPairSelect side v s) = pairedItems s \<or>
    (\<exists>c\<in>set (levelPairs s).
       pairedItems (handleFindPairSelect side v s) = finsert (image' c) (pairedItems s)))"
  by (auto simp: handleFindPairSelect_def Let_def prim_defs split: option.splits
           dest: find_in_set)

lemma pairs_inv_findPair: "pairs_inv s \<Longrightarrow> pairs_inv (handleFindPairSelect side v s)"
proof -
  assume inv: "pairs_inv s"
  let ?r = "handleFindPairSelect side v s"
  have lv: "levelImages ?r = levelImages s"
    using findPair_pairedItems [of side v s]
    by (simp add: levelImages_def levelPairs_def pairsCount_def)
  have mem: "\<And>c. c \<in> set (levelPairs s) \<Longrightarrow> image' c |\<in>| levelImages s"
    unfolding levelImages_def fset_of_list_elem by simp
  have "pairedItems ?r |\<subseteq>| levelImages s"
    using findPair_pairedItems [of side v s] inv mem
    by (auto simp: pairs_inv_def)
  then show ?thesis by (simp add: pairs_inv_def lv)
qed

lemma fp_same_fire:
  "\<forall>g. cb \<noteq> AdvanceLevel g \<Longrightarrow> fp_same s (state_of (fire cb ch s))"
  by (cases cb)
     (auto simp: fp_same_def fireMemoryMatch_def fireMemoryNoMatch_def firePatternNext_def
       fireDifferentNext_def showSimonSequence_def fireSimonShowNext_def fireSimonHide_def
       Let_def prim_defs split: option.splits)

lemma fp_same_click:
  "fp_same s (state_of (handleCardClick i s))"
  "fp_same s (state_of (handlePatternAnswer ans s))"
  "fp_same s (state_of (handleDifferentClick i s))"
  "fp_same s (state_of (handleSequenceClick item ch s))"
  "fp_same s (state_of (handleSimonClick b s))"
  "fp_same s (goToMenu s)"
  by (auto simp: fp_same_def handleCardClick_def handlePatternAnswer_def handleDifferentClick_def
        handleSequenceClick_def handleSimonClick_def goToMenu_def Let_def prim_defs
        split: option.splits)

lemma pairs_inv_fire: "pairs_inv s \<Longrightarrow> pairs_inv (state_of (fire cb ch s))"
proof (cases "\<exists>g. cb = AdvanceLevel g")
  case False
  assume "pairs_inv s"
  then show ?thesis using False fp_same_fire [of cb s ch] fp_same_inv by blast
next
  case True
  assume inv: "pairs_inv s"
  from True obtain g where g: "cb = AdvanceLevel g" ..
  let ?s2 = "setGameState (\<lambda>prev. prev\<lparr>level := level prev + 1\<rparr>)
               (s\<lparr>showLevelCompleteModal := False\<rparr>)"
  have "fp_same s ?s2" by (simp add: fp_same_def setGameState_def)
  then have i2: "pairs_inv ?s2" using inv fp_same_inv by blast
  show ?thesis
    using i2 pairs_inv_init [OF i2] g
    by (cases "type g") (simp_all add: fireAdvanceLevel_def Let_def)
qed

lemma pairs_inv_startGame: "pairs_inv s \<Longrightarrow> pairs_inv (state_of (startGame t ch s))"
proof -
  assume inv: "pairs_inv s"
  have "fp_same s (startGame_reset t s)"
    by (simp add: fp_same_def startGame_reset_def Let_def playSound_def)
  then have r: "pairs_inv (startGame_reset t s)" using inv fp_same_inv by blast
  have "fp_same (state_of (initGameAtLevel t 1 ch (startGame_reset t s))) (state_of (startGame t ch s))"
    by (cases "initGameAtLevel t 1 ch (startGame_reset t s)") (simp_all add: startGame_def fp_same_def)
  then show ?thesis using pairs_inv_init [OF r] fp_same_inv by blast
qed

lemma pairs_inv_step: "pairs_inv s \<Longrightarrow> pairs_inv (step ch s e)"
proof (cases e)
  case (StartGame t)
  assume "pairs_inv s"
  then show ?thesis using StartGame by (simp add: step_def pairs_inv_startGame)
next
  case RestartGame
  assume inv: "pairs_inv s"
  let ?s2 = "(playSound Click s)\<lparr>showWinModal := False, showLevelCompleteModal := False\<rparr>"
  have "fp_same s ?s2" by (simp add: fp_same_def playSound_def)
  then have "pairs_inv ?s2" using inv fp_same_inv by blast
  then show ?thesis using RestartGame pairs_inv_startGame [of ?s2]
    by (cases "type (gameState s)") (simp_all add: step_def restartGame_def Let_def)
next
  case (FindPairSelect side v)
  assume "pairs_inv s"
  then show ?thesis using FindPairSelect by (simp add: step_def pairs_inv_findPair)
next
  case (Expire i)
  assume inv: "pairs_inv s"
  have "fp_same s (clearTimeout i s)" by (simp add: fp_same_def clearTimeout_def)
  then have "pairs_inv (clearTimeout i s)" using inv fp_same_inv by blast
  then show ?thesis using Expire inv pairs_inv_fire
    by (cases "find (\<lambda>t. tid t = i) (timers s)") (simp_all add: step_def expire_def)
qed (use fp_same_click fp_same_inv in \<open>auto simp: step_def fp_same_def pairs_inv_def levelImages_def
       levelPairs_def pairsCount_def playSound_def\<close>)


lemma pairs_inv_initial: "pairs_inv initialApp"
  by (simp add: pairs_inv_def initialApp_def)

subsection \<open>What a correct answer scores, by variant\<close>




subsection \<open>The level bound and timers left pending\<close>

text \<open>
  C2 fails on the code. \<^verbatim>\<open>goToMenu\<close> clears only the timer of the colour sequence; the
  completion callback of an abandoned game stays pending. Here the player answers the
  last challenge of level 2 of the pattern game, returns to the menu within the second
  of feedback and starts pair matching. Every event of the list is offered by the
  screen it meets, and at most one timer is pending at any time. The stale callback
  moves the new session to level 3 of 5; completing the three pairs then advances it to
  level 4, and the init of pair matching sets \<open>maxLevel = 3\<close>: the game screen shows
  level 4 of 3.
\<close>

theorem stale_timer_breaks_level_bound:
  "enabled_run noShuffle initialApp stale_timer_trace
   \<and> currentScreen (run noShuffle initialApp stale_timer_trace) = Game
   \<and> gameState (run noShuffle initialApp stale_timer_trace)
       = \<lparr>type = Some FindPair, level = 4, maxLevel = 3, score = 30, attempts = 0\<rparr>
   \<and> \<not> (level (gameState (run noShuffle initialApp stale_timer_trace))
          \<le> maxLevel (gameState (run noShuffle initialApp stale_timer_trace)))"
  by code_simp

subsection \<open>The level bound without stale timers\<close>

text \<open>
  When the timers pending at \<^verbatim>\<open>startGame\<close> belong to a session of the same game type (in
  particular when none is pending), the bound \<open>1 \<le> level \<le> maxLevel\<close> holds after every
  list of clicks and timer expiries of the session.
\<close>

lemma keeps_inv: "session_inv t s \<Longrightarrow> keeps t s r \<Longrightarrow> session_inv t r"
  by (auto simp: session_inv_def keeps_def session_state_def list_all_iff)

lemma keeps_trans: "keeps t s r \<Longrightarrow> keeps t r q \<Longrightarrow> keeps t s q"
  by (auto simp: keeps_def)

lemma keeps_autoAdvance:
  "session_state t g \<Longrightarrow> keeps t s (autoAdvanceLevel g s)"
  by (auto simp: keeps_def prim_defs)

lemma keeps_cardClick:
  "session_state t (gameState s) \<Longrightarrow> keeps t s (state_of (handleCardClick i s))"
  by (auto simp: keeps_def handleCardClick_def Let_def prim_defs split: option.splits)

lemma keeps_findPair:
  "session_state t (gameState s) \<Longrightarrow> keeps t s (handleFindPairSelect side v s)"
  by (auto simp: keeps_def handleFindPairSelect_def Let_def prim_defs split: option.splits)

lemma keeps_pattern:
  "session_state t (gameState s) \<Longrightarrow> keeps t s (state_of (handlePatternAnswer ans s))"
  by (auto simp: keeps_def handlePatternAnswer_def Let_def prim_defs split: option.splits)

lemma keeps_different:
  "session_state t (gameState s) \<Longrightarrow> keeps t s (state_of (handleDifferentClick i s))"
  by (auto simp: keeps_def handleDifferentClick_def Let_def prim_defs split: option.splits)

lemma keeps_sequence:
  "session_state t (gameState s) \<Longrightarrow> keeps t s (state_of (handleSequenceClick item ch s))"
  by (auto simp: keeps_def handleSequenceClick_def Let_def prim_defs split: option.splits)

lemma keeps_simon:
  "session_state t (gameState s) \<Longrightarrow> keeps t s (state_of (handleSimonClick b s))"
  by (auto simp: keeps_def handleSimonClick_def Let_def prim_defs split: option.splits)

lemma init_timers:
  "\<forall>tm\<in>set (timers (state_of (initGameAtLevel u lvl ch s))).
      tm \<in> set (timers s) \<or> callback_ok t (callback tm)"
  by (cases u) (auto simp: init_defs Let_def prim_defs split: option.splits)

lemma init_sequence_returns:
  "1 \<le> lvl \<Longrightarrow> lvl \<le> MAX_LEVELS u \<Longrightarrow>
   initGameAtLevel u lvl ch s = Returned (state_of (initGameAtLevel u lvl ch s))"
  by (cases u)
     (auto simp: initSequenceGameAtLevel_def at_level_def nth_opt_def length_tables
           split: option.splits)

lemma inv_fireAdvanceLevel:
  assumes "session_inv t s" and "callback_ok t (AdvanceLevel g)"
  shows "session_inv t (state_of (fireAdvanceLevel g ch s))"
proof -
  let ?s2 = "setGameState (\<lambda>prev. prev\<lparr>level := level prev + 1\<rparr>)
               (s\<lparr>showLevelCompleteModal := False\<rparr>)"
  have g: "type g = Some t" "maxLevel g = MAX_LEVELS t" "1 \<le> level g" "level g < MAX_LEVELS t"
    using assms(2) by (auto simp: session_state_def)
  have ty: "type (gameState s) = Some t"
    using assms(1) by (simp add: session_inv_def session_state_def)
  have r: "initGameAtLevel t (level g + 1) ch ?s2
             = Returned (state_of (initGameAtLevel t (level g + 1) ch ?s2))"
    using g by (intro init_sequence_returns) auto
  have gs: "gameState (state_of (initGameAtLevel t (level g + 1) ch ?s2))
             = (gameState ?s2)\<lparr>level := level g + 1, maxLevel := MAX_LEVELS t\<rparr>"
    using gameState_initGameAtLevel [OF r] .
  have st: "session_state t (gameState (state_of (initGameAtLevel t (level g + 1) ch ?s2)))"
    unfolding gs using g ty by (simp add: session_state_def setGameState_def)
  have t2: "timers ?s2 = timers s" by (simp add: setGameState_def)
  have tm: "list_all (\<lambda>tm. callback_ok t (callback tm))
              (timers (state_of (initGameAtLevel t (level g + 1) ch ?s2)))"
    using init_timers [of t "level g + 1" ch ?s2 t, unfolded t2] assms(1)
    by (auto simp: list_all_iff session_inv_def)
  show ?thesis
    using st tm g(1) by (simp add: fireAdvanceLevel_def Let_def session_inv_def)
qed

lemma inv_fire:
  assumes "session_inv t s" and "callback_ok t cb"
  shows "session_inv t (state_of (fire cb ch s))"
proof (cases cb)
  case (AdvanceLevel g)
  then show ?thesis using assms inv_fireAdvanceLevel by simp
next
  case (MemoryMatch newCards first second g)
  have "keeps t s (state_of (fireMemoryMatch newCards first second g s))"
    using assms(2) MemoryMatch
    by (auto simp: keeps_def fireMemoryMatch_def Let_def prim_defs split: option.splits)
  then show ?thesis using assms(1) MemoryMatch keeps_inv by simp
next
  case (PatternNext idx len g)
  have "keeps t s (firePatternNext idx len g s)"
    using assms(2) PatternNext by (auto simp: keeps_def firePatternNext_def prim_defs)
  then show ?thesis using assms(1) PatternNext keeps_inv by simp
next
  case (DifferentNext idx len g)
  have "keeps t s (fireDifferentNext idx len g s)"
    using assms(2) DifferentNext by (auto simp: keeps_def fireDifferentNext_def prim_defs)
  then show ?thesis using assms(1) DifferentNext keeps_inv by simp
next
  case (SimonAdvance g)
  then show ?thesis using assms keeps_autoAdvance keeps_inv by simp
next
  case (MemoryNoMatch newCards first second)
  have "keeps t s (state_of (fireMemoryNoMatch newCards first second s))"
    by (auto simp: keeps_def fireMemoryNoMatch_def Let_def prim_defs split: option.splits)
  then show ?thesis using assms(1) MemoryNoMatch keeps_inv by simp
next
  case (SimonStart sq)
  have "keeps t s (showSimonSequence sq s)"
    by (auto simp: keeps_def showSimonSequence_def prim_defs)
  then show ?thesis using assms(1) SimonStart keeps_inv by simp
next
  case (SimonReplay sq)
  have "keeps t s (showSimonSequence sq s)"
    by (auto simp: keeps_def showSimonSequence_def prim_defs)
  then show ?thesis using assms(1) SimonReplay keeps_inv by simp
next
  case (SimonShowNext sq index)
  have "keeps t s (state_of (fireSimonShowNext sq index s))"
    by (auto simp: keeps_def fireSimonShowNext_def Let_def prim_defs split: option.splits)
  then show ?thesis using assms(1) SimonShowNext keeps_inv by simp
next
  case (SimonHide sq index)
  have "keeps t s (fireSimonHide sq index s)"
    by (auto simp: keeps_def fireSimonHide_def Let_def prim_defs)
  then show ?thesis using assms(1) SimonHide keeps_inv by simp
qed

lemma inv_expire: "session_inv t s \<Longrightarrow> session_inv t (state_of (expire i ch s))"
proof (cases "find (\<lambda>tm. tid tm = i) (timers s)")
  case None
  assume "session_inv t s"
  then show ?thesis using None by (simp add: expire_def)
next
  case (Some tm)
  assume inv: "session_inv t s"
  have "tm \<in> set (timers s)" using Some by (rule find_in_set)
  then have ok: "callback_ok t (callback tm)"
    using inv by (auto simp: session_inv_def list_all_iff)
  have "session_inv t (clearTimeout i s)"
    using inv by (auto simp: session_inv_def clearTimeout_def list_all_iff)
  then show ?thesis using Some ok inv_fire by (simp add: expire_def)
qed

lemma session_inv_step:
  assumes "session_inv t s" and "session_event e"
  shows "session_inv t (step ch s e)"
proof -
  have st: "session_state t (gameState s)" using assms(1) by (simp add: session_inv_def)
  show ?thesis
  proof (cases e)
    case (CardClick i)
    then show ?thesis using assms(1) keeps_cardClick [OF st] keeps_inv by (simp add: step_def)
  next
    case (FindPairSelect side v)
    then show ?thesis using assms(1) keeps_findPair [OF st] keeps_inv by (simp add: step_def)
  next
    case (PatternAnswer ans)
    then show ?thesis using assms(1) keeps_pattern [OF st] keeps_inv by (simp add: step_def)
  next
    case (DifferentClick i)
    then show ?thesis using assms(1) keeps_different [OF st] keeps_inv by (simp add: step_def)
  next
    case (SequenceClick item)
    then show ?thesis using assms(1) keeps_sequence [OF st] keeps_inv by (simp add: step_def)
  next
    case (SimonClick b)
    then show ?thesis using assms(1) keeps_simon [OF st] keeps_inv by (simp add: step_def)
  next
    case (Expire i)
    then show ?thesis using assms(1) inv_expire by (simp add: step_def)
  next
    case DismissWin
    then show ?thesis using assms(1) by (simp add: step_def session_inv_def)
  next
    case ToggleSound
    then show ?thesis using assms(1) by (simp add: step_def session_inv_def playSound_def)
  qed (use assms(2) in simp_all)
qed

lemma session_inv_startGame:
  assumes "list_all (\<lambda>tm. callback_ok t (callback tm)) (timers s)"
  shows "session_inv t (state_of (startGame t ch s))"
proof -
  let ?r = "startGame_reset t s"
  have tr: "timers ?r = timers s" by (simp add: startGame_reset_def Let_def playSound_def)
  have ti: "list_all (\<lambda>tm. callback_ok t (callback tm))
              (timers (state_of (initGameAtLevel t 1 ch ?r)))"
    using init_timers [of t 1 ch ?r t, unfolded tr] assms by (auto simp: list_all_iff)
  have "timers (state_of (startGame t ch s)) = timers (state_of (initGameAtLevel t 1 ch ?r))"
    by (cases "initGameAtLevel t 1 ch ?r") (simp_all add: startGame_def)
  then show ?thesis
    using ti startGame_result [of t ch s]
    by (cases t) (simp_all add: session_inv_def session_state_def)
qed

lemma session_inv_steps:
  "session_inv t s \<Longrightarrow> \<forall>ce\<in>set ces. session_event (snd ce) \<Longrightarrow> session_inv t (steps s ces)"
proof (induction ces arbitrary: s)
  case Nil
  then show ?case by (simp add: steps_def)
next
  case (Cons ce ces)
  obtain ch e where ce: "ce = (ch, e)" by (cases ce)
  have "session_inv t (step ch s e)"
    using Cons.prems ce by (simp add: session_inv_step)
  then have "session_inv t (steps (step ch s e) ces)"
    using Cons by simp
  then show ?case by (simp add: steps_def ce)
qed

lemma level_bound_in_session:
  assumes "list_all (\<lambda>tm. callback_ok t (callback tm)) (timers s)"
    and "\<forall>ce\<in>set ces. session_event (snd ce)"
  shows "1 \<le> level (gameState (steps (state_of (startGame t ch s)) ces))
    \<and> level (gameState (steps (state_of (startGame t ch s)) ces))
        \<le> maxLevel (gameState (steps (state_of (startGame t ch s)) ces))
    \<and> maxLevel (gameState (steps (state_of (startGame t ch s)) ces)) = MAX_LEVELS t"
  using session_inv_steps [OF session_inv_startGame [OF assms(1), of ch] assms(2)]
  by (simp add: session_inv_def session_state_def)

lemma level_bound_first_session:
  "\<forall>ce\<in>set ces. session_event (snd ce) \<Longrightarrow>
   1 \<le> level (gameState (steps (state_of (startGame t ch initialApp)) ces))
   \<and> level (gameState (steps (state_of (startGame t ch initialApp)) ces))
       \<le> maxLevel (gameState (steps (state_of (startGame t ch initialApp)) ces))"
  using level_bound_in_session [of t initialApp ces ch]
  by (simp add: initialApp_def)

end
